theory Spec2Isabelle
  imports Main "HOL-Library.Word"
begin

unbundle bit_operations_syntax

section \<open>The LTE PDCP entity of \<^verbatim>\<open>lib/src/upper/pdcp_entity_lte.cc\<close>\<close>

text \<open>
  A shallow embedding of \<^verbatim>\<open>srslte::pdcp_entity_lte\<close>. Machine integers are words
  (\<^verbatim>\<open>uint8_t\<close>, \<^verbatim>\<open>uint16_t\<close>, \<^verbatim>\<open>uint32_t\<close>; an \<^verbatim>\<open>int32_t\<close> is a 32-bit word read
  with \<open>sint\<close>), the entity is a record passed through every member function, and
  every call the entity makes to RLC, RRC or the gateway is an \<open>action\<close> in the list
  the function returns beside the new state.
\<close>

type_synonym u8 = "8 word"
type_synonym u16 = "16 word"
type_synonym u32 = "32 word"

subsection \<open>Data\<close>

text \<open>
  Modelled from the spec: the types that the headers of the entity declare. The kind of
  the bearer (the spec's \<open>bearer_kind \<in> {SRB, DRB}\<close>), the direction of integrity and
  encryption (\<open>{NONE, TX, RX, TXRX}\<close>), the discard timer (a number of milliseconds or
  \<open>\<infinity>\<close>), the configuration and the five counters of the bearer state. The fields are
  the ones that the file reads and writes, under its names.
\<close>

datatype pdcp_rb_type_t = PDCP_RB_IS_SRB | PDCP_RB_IS_DRB

datatype srslte_direction_t = DIRECTION_NONE | DIRECTION_TX | DIRECTION_RX | DIRECTION_TXRX

datatype pdcp_discard_timer_t = ms u32 | infinity

text \<open>
  \<^verbatim>\<open>byte_buffer_t\<close>: \<open>msg\<close> is the storage that the \<^verbatim>\<open>msg\<close> pointer reaches (from the
  pointer to the end of the buffer), \<open>N_bytes\<close> the number of bytes in use, and
  \<open>md_pdcp_sn\<close> the metadata field \<^verbatim>\<open>md.pdcp_sn\<close>. Bytes of \<open>msg\<close> at and after
  \<open>N_bytes\<close> are stale storage.
\<close>

record byte_buffer_t =
  msg :: "u8 list"
  N_bytes :: u32
  md_pdcp_sn :: u32

record pdcp_config_t =
  rb_type :: pdcp_rb_type_t
  sn_len :: u8
  hdr_len_bytes :: u8
  discard_timer :: pdcp_discard_timer_t
  status_report_required :: bool

record pdcp_lte_state_t =
  next_pdcp_tx_sn :: u32
  tx_hfn :: u32
  rx_hfn :: u32
  next_pdcp_rx_sn :: u32
  last_submitted_pdcp_rx_sn :: u32

text \<open>
  A discard timer as the entity holds it: its duration and the \<^verbatim>\<open>discard_sn\<close> that
  its \<^verbatim>\<open>discard_callback\<close> captured.
\<close>

record unique_timer =
  duration :: u32
  discard_sn :: u32

text \<open>
  The entity. The two \<^verbatim>\<open>std::map\<close>s are lists of key and value in the order the
  map iterates them; \<open>map_insert\<close> below keeps the keys ascending and distinct.
\<close>

record pdcp_entity_lte =
  cfg :: pdcp_config_t
  active :: bool
  integrity_direction :: srslte_direction_t
  encryption_direction :: srslte_direction_t
  enable_security_tx_sn :: u32
  enable_security_rx_sn :: u32
  reordering_window :: u32
  maximum_pdcp_sn :: u32
  st :: pdcp_lte_state_t
  undelivered_sdus_queue :: "(u32 \<times> byte_buffer_t) list"
  discard_timers_map :: "(u32 \<times> unique_timer) list"

text \<open>What the entity calls on its collaborators (the \<^verbatim>\<open>lcid\<close> is the entity's own).\<close>

datatype action =
    RLC_write_sdu byte_buffer_t
  | RLC_discard_sdu u32
  | RRC_write_pdu byte_buffer_t
  | GW_write_pdu byte_buffer_t

text \<open>
  The collaborators and the helpers of \<^verbatim>\<open>pdcp_entity_base\<close> that the file calls and
  does not define. They are parameters of the model: the answers of RLC to
  \<^verbatim>\<open>rb_is_um\<close> and \<^verbatim>\<open>sdu_queue_is_full\<close>, the buffer pool's answer to
  \<^verbatim>\<open>make_byte_buffer\<close> (\<open>None\<close> is \<^verbatim>\<open>nullptr\<close>), the framing helpers, and the
  integrity and cipher functions, each as the function from its arguments (the buffer,
  the offset into \<^verbatim>\<open>msg\<close> and the length it is given, the COUNT) to what it leaves
  behind. \<open>bitset8_oob b\<close> is what \<^verbatim>\<open>std::bitset<8>{b}[8]\<close> yields: the index is
  outside the bitset, and the language leaves the read undefined.
\<close>

record collaborators =
  rb_is_um :: bool
  sdu_queue_is_full :: bool
  make_byte_buffer :: "byte_buffer_t option"
  bitset8_oob :: "u8 \<Rightarrow> bool"
  write_data_header :: "pdcp_config_t \<Rightarrow> byte_buffer_t \<Rightarrow> u32 \<Rightarrow> byte_buffer_t"
  read_data_header :: "pdcp_config_t \<Rightarrow> byte_buffer_t \<Rightarrow> u32"
  discard_data_header :: "pdcp_config_t \<Rightarrow> byte_buffer_t \<Rightarrow> byte_buffer_t"
  is_control_pdu :: "byte_buffer_t \<Rightarrow> bool"
  get_control_pdu_type :: "byte_buffer_t \<Rightarrow> u8"
  append_mac :: "byte_buffer_t \<Rightarrow> u8 list \<Rightarrow> byte_buffer_t"
  extract_mac :: "byte_buffer_t \<Rightarrow> byte_buffer_t \<times> u8 list"
  integrity_generate :: "byte_buffer_t \<Rightarrow> u32 \<Rightarrow> u32 \<Rightarrow> u8 list"
  integrity_verify :: "byte_buffer_t \<Rightarrow> u32 \<Rightarrow> u32 \<Rightarrow> u8 list \<Rightarrow> bool"
  cipher_encrypt :: "byte_buffer_t \<Rightarrow> nat \<Rightarrow> u32 \<Rightarrow> u32 \<Rightarrow> byte_buffer_t"
  cipher_decrypt :: "byte_buffer_t \<Rightarrow> nat \<Rightarrow> u32 \<Rightarrow> u32 \<Rightarrow> byte_buffer_t"

subsection \<open>Constants and helpers declared outside the file\<close>

text \<open>
  Modelled from the spec: the constants \<^verbatim>\<open>PDCP_SN_LEN_*\<close> of the configuration
  header (the spec's \<open>sn_len \<in> {5, 7, 12, 18}\<close>), the data/control field and the
  control PDU type (the spec's "control PDU is distinguished by the data/control bit
  clearing to 0", "subtype code 0", and byte 0 of a status report \<open>= 0x00\<close>).
\<close>

definition PDCP_SN_LEN_5 :: u8 where "PDCP_SN_LEN_5 = 5"
definition PDCP_SN_LEN_7 :: u8 where "PDCP_SN_LEN_7 = 7"
definition PDCP_SN_LEN_12 :: u8 where "PDCP_SN_LEN_12 = 12"
definition PDCP_SN_LEN_18 :: u8 where "PDCP_SN_LEN_18 = 18"
definition PDCP_DC_FIELD_CONTROL_PDU :: u8 where "PDCP_DC_FIELD_CONTROL_PDU = 0"
definition PDCP_PDU_TYPE_STATUS_REPORT :: u8 where "PDCP_PDU_TYPE_STATUS_REPORT = 0"

text \<open>
  Modelled from the spec: \<^verbatim>\<open>is_srb\<close>, \<^verbatim>\<open>is_drb\<close> (the spec's \<open>bearer_kind\<close>) and
  \<^verbatim>\<open>COUNT\<close> of the base class (the spec's \<open>COUNT = (hfn << sn_len) | sn\<close>, 32 bits;
  \<^verbatim>\<open>handle_um_drb_pdu\<close> writes the same expression out).
\<close>

definition is_srb :: "pdcp_entity_lte \<Rightarrow> bool" where
  "is_srb s = (rb_type (cfg s) = PDCP_RB_IS_SRB)"

definition is_drb :: "pdcp_entity_lte \<Rightarrow> bool" where
  "is_drb s = (rb_type (cfg s) = PDCP_RB_IS_DRB)"

definition COUNT :: "pdcp_entity_lte \<Rightarrow> u32 \<Rightarrow> u32 \<Rightarrow> u32" where
  "COUNT s hfn sn = push_bit (unat (sn_len (cfg s))) hfn OR sn"

text \<open>
  Modelled from the spec: \<^verbatim>\<open>enable_integrity\<close> and \<^verbatim>\<open>enable_encryption\<close> of the base
  class change a direction "to include" the one given.
\<close>

definition enable_direction :: "srslte_direction_t \<Rightarrow> srslte_direction_t \<Rightarrow> srslte_direction_t" where
  "enable_direction current direction =
     (if current = DIRECTION_TXRX then DIRECTION_TXRX
      else if current = DIRECTION_TX \<and> direction = DIRECTION_RX then DIRECTION_TXRX
      else if current = DIRECTION_RX \<and> direction = DIRECTION_TX then DIRECTION_TXRX
      else direction)"

text \<open>
  Modelled from the spec: \<^verbatim>\<open>uint8_to_uint16\<close> and \<^verbatim>\<open>uint8_to_uint24\<close> of
  \<^verbatim>\<open>int_helpers.h\<close> read two and three bytes, the first byte highest (the spec's
  "low 4 bits of byte 0 \<parallel> byte 1").
\<close>

definition uint8_to_uint16 :: "u8 \<Rightarrow> u8 \<Rightarrow> u16" where
  "uint8_to_uint16 b0 b1 = push_bit 8 (ucast b0) OR ucast b1"

definition uint8_to_uint24 :: "u8 \<Rightarrow> u8 \<Rightarrow> u8 \<Rightarrow> u32" where
  "uint8_to_uint24 b0 b1 b2 = push_bit 16 (ucast b0) OR push_bit 8 (ucast b1) OR ucast b2"

subsection \<open>Buffers and maps\<close>

text \<open>
  A read or a write of \<^verbatim>\<open>msg[i]\<close>. Outside the storage the source's behaviour is
  undefined; the model returns \<open>None\<close> there, and so does every function that makes
  such an access.
\<close>

definition msg_get :: "byte_buffer_t \<Rightarrow> nat \<Rightarrow> u8 option" where
  "msg_get b i = (if i < length (msg b) then Some (msg b ! i) else None)"

definition msg_set :: "byte_buffer_t \<Rightarrow> nat \<Rightarrow> u8 \<Rightarrow> byte_buffer_t option" where
  "msg_set b i v = (if i < length (msg b) then Some (b\<lparr>msg := (msg b)[i := v]\<rparr>) else None)"

text \<open>\<^verbatim>\<open>memset(&msg[off], 0, n)\<close>.\<close>

definition msg_zero :: "byte_buffer_t \<Rightarrow> nat \<Rightarrow> nat \<Rightarrow> byte_buffer_t option" where
  "msg_zero b off n =
     (if off + n \<le> length (msg b)
      then Some (b\<lparr>msg := take off (msg b) @ replicate n 0 @ drop (off + n) (msg b)\<rparr>)
      else None)"

text \<open>The bytes in use: what a receiver of the buffer reads.\<close>

definition pdu_bytes :: "byte_buffer_t \<Rightarrow> u8 list" where
  "pdu_bytes b = take (unat (N_bytes b)) (msg b)"

text \<open>\<^verbatim>\<open>std::map\<close>: \<^verbatim>\<open>find\<close>, \<^verbatim>\<open>insert\<close> (which keeps an entry already there) and \<^verbatim>\<open>erase\<close>.\<close>

fun map_find :: "u32 \<Rightarrow> (u32 \<times> 'v) list \<Rightarrow> 'v option" where
  "map_find k [] = None"
| "map_find k ((k', v) # xs) = (if k = k' then Some v else map_find k xs)"

fun map_insert :: "u32 \<Rightarrow> 'v \<Rightarrow> (u32 \<times> 'v) list \<Rightarrow> (u32 \<times> 'v) list" where
  "map_insert k v [] = [(k, v)]"
| "map_insert k v ((k', v') # xs) =
     (if k < k' then (k, v) # (k', v') # xs
      else if k = k' then (k', v') # xs
      else (k', v') # map_insert k v xs)"

fun map_erase :: "u32 \<Rightarrow> (u32 \<times> 'v) list \<Rightarrow> (u32 \<times> 'v) list" where
  "map_erase k [] = []"
| "map_erase k ((k', v) # xs) = (if k = k' then map_erase k xs else (k', v) # map_erase k xs)"

definition map_keys :: "(u32 \<times> 'v) list \<Rightarrow> u32 list" where
  "map_keys xs = map fst xs"

subsection \<open>The status report: \<^verbatim>\<open>send_status_report\<close>\<close>

text \<open>
  The loop over the queue that sets one bit of the bitmap for each key:
  \<^verbatim>\<open>pdu->msg[pdu->N_bytes + byte_offset] |= 1 << (7 - bit_offset)\<close>.
\<close>

fun set_bitmap_bits :: "u32 \<Rightarrow> (u32 \<times> byte_buffer_t) list \<Rightarrow> byte_buffer_t \<Rightarrow> byte_buffer_t option" where
  "set_bitmap_bits fms [] pdu = Some pdu"
| "set_bitmap_bits fms ((k, v) # q) pdu =
     (let offset = k - fms;
          bit_offset = offset mod 8;
          byte_offset = offset div 8;
          idx = unat (N_bytes pdu + byte_offset)
      in case msg_get pdu idx of
           None \<Rightarrow> None
         | Some b \<Rightarrow>
             (case msg_set pdu idx (b OR push_bit (7 - unat bit_offset) 1) of
                None \<Rightarrow> None
              | Some pdu' \<Rightarrow> set_bitmap_bits fms q pdu'))"

text \<open>
  \<^verbatim>\<open>bitmap_sz = std::ceil((float)(last_sn - (fms - 1)) / 8)\<close>. A \<^verbatim>\<open>float\<close> holds every
  integer below \<open>2 ^ 24\<close> and the division by 8 is exact, so below \<open>2 ^ 24\<close> the size is
  the integer ceiling; at and above it (a bitmap of two mebibytes) the model returns
  \<open>None\<close>.
\<close>

definition bitmap_size :: "u32 \<Rightarrow> u32 \<Rightarrow> u32 option" where
  "bitmap_size last_sn fms =
     (let n = unat (last_sn - (fms - 1))
      in if n < 2 ^ 24 then Some (of_nat ((n + 7) div 8)) else None)"

definition add_bitmap :: "pdcp_entity_lte \<Rightarrow> u32 \<Rightarrow> byte_buffer_t \<Rightarrow> byte_buffer_t option" where
  "add_bitmap s fms pdu =
     (if undelivered_sdus_queue s \<noteq> [] then
        (let last_sn = fst (last (undelivered_sdus_queue s))
         in case bitmap_size last_sn fms of
              None \<Rightarrow> None
            | Some bitmap_sz \<Rightarrow>
                (case msg_zero pdu (unat (N_bytes pdu)) (unat bitmap_sz) of
                   None \<Rightarrow> None
                 | Some pdu1 \<Rightarrow>
                     (case set_bitmap_bits fms (undelivered_sdus_queue s) pdu1 of
                        None \<Rightarrow> None
                      | Some pdu2 \<Rightarrow> Some (pdu2\<lparr>N_bytes := N_bytes pdu2 + bitmap_sz\<rparr>))))
      else Some pdu)"

text \<open>The \<^verbatim>\<open>switch (cfg.sn_len)\<close> that writes the FMS; \<open>Some None\<close> is its \<^verbatim>\<open>default\<close>.\<close>

definition set_fms :: "u8 \<Rightarrow> u32 \<Rightarrow> byte_buffer_t \<Rightarrow> byte_buffer_t option option" where
  "set_fms len fms pdu =
     (if len = PDCP_SN_LEN_12 then
        (case msg_get pdu 0 of
           None \<Rightarrow> None
         | Some b0 \<Rightarrow>
             (case msg_set pdu 0 (b0 OR ucast (0x0F AND drop_bit 8 fms)) of
                None \<Rightarrow> None
              | Some p1 \<Rightarrow>
                  (case msg_set p1 1 (ucast (0xFF AND fms)) of
                     None \<Rightarrow> None
                   | Some p2 \<Rightarrow> Some (Some (p2\<lparr>N_bytes := 2\<rparr>)))))
      else if len = PDCP_SN_LEN_18 then
        (case msg_get pdu 0 of
           None \<Rightarrow> None
         | Some b0 \<Rightarrow>
             (case msg_set pdu 0 (b0 OR ucast (0x03 AND drop_bit 16 fms)) of
                None \<Rightarrow> None
              | Some p1 \<Rightarrow>
                  (case msg_set p1 1 (ucast (0xFF AND drop_bit 8 fms)) of
                     None \<Rightarrow> None
                   | Some p2 \<Rightarrow>
                       (case msg_set p2 2 (ucast (0xFF AND fms)) of
                          None \<Rightarrow> None
                        | Some p3 \<Rightarrow> Some (Some (p3\<lparr>N_bytes := 3\<rparr>))))))
      else Some None)"

text \<open>The First Missing SDU of the report.\<close>

definition status_report_fms :: "pdcp_entity_lte \<Rightarrow> u32" where
  "status_report_fms s =
     (case undelivered_sdus_queue s of
        [] \<Rightarrow> next_pdcp_tx_sn (st s)
      | (k, v) # q \<Rightarrow> k)"

definition send_status_report :: "collaborators \<Rightarrow> pdcp_entity_lte \<Rightarrow> action list option" where
  "send_status_report env s =
     (if rb_is_um env then Some []
      else
        (let fms = status_report_fms s
         in case make_byte_buffer env of
              None \<Rightarrow> Some []
            | Some pdu \<Rightarrow>
                (case msg_set pdu 0
                        (push_bit 7 PDCP_DC_FIELD_CONTROL_PDU OR push_bit 4 PDCP_PDU_TYPE_STATUS_REPORT) of
                   None \<Rightarrow> None
                 | Some pdu0 \<Rightarrow>
                     (case set_fms (sn_len (cfg s)) fms pdu0 of
                        None \<Rightarrow> None
                      | Some None \<Rightarrow> Some []
                      | Some (Some pdu1) \<Rightarrow>
                          (case add_bitmap s fms pdu1 of
                             None \<Rightarrow> None
                           | Some pdu2 \<Rightarrow> Some [RLC_write_sdu pdu2])))))"

subsection \<open>The status report: \<^verbatim>\<open>handle_status_report_pdu\<close>\<close>

text \<open>The \<^verbatim>\<open>switch (cfg.sn_len)\<close> that reads the FMS and the offset of the bitmap.\<close>

definition get_fms :: "u8 \<Rightarrow> byte_buffer_t \<Rightarrow> (u32 \<times> u32) option option" where
  "get_fms len pdu =
     (if len = PDCP_SN_LEN_12 then
        (case (msg_get pdu 0, msg_get pdu 1) of
           (Some b0, Some b1) \<Rightarrow> Some (Some (ucast (uint8_to_uint16 b0 b1 AND 0x0FFF), 2))
         | _ \<Rightarrow> None)
      else if len = PDCP_SN_LEN_18 then
        (case (msg_get pdu 0, msg_get pdu 1, msg_get pdu 2) of
           (Some b0, Some b1, Some b2) \<Rightarrow> Some (Some (uint8_to_uint24 b0 b1 b2 AND 0x3FFF, 3))
         | _ \<Rightarrow> None)
      else Some None)"

text \<open>The first loop: every entry of the queue with a key below the FMS goes, and its timer.\<close>

fun erase_below_fms ::
  "u32 \<Rightarrow> (u32 \<times> byte_buffer_t) list \<Rightarrow> (u32 \<times> unique_timer) list \<Rightarrow>
   (u32 \<times> byte_buffer_t) list \<times> (u32 \<times> unique_timer) list" where
  "erase_below_fms fms [] t = ([], t)"
| "erase_below_fms fms ((k, v) # q) t =
     (if k < fms then erase_below_fms fms q (map_erase k t)
      else (case erase_below_fms fms q t of (q', t') \<Rightarrow> ((k, v) # q', t')))"

text \<open>
  \<^verbatim>\<open>bset[pos]\<close> of a \<^verbatim>\<open>std::bitset<8>\<close>, and the inner loop over \<open>j = 0 .. 7\<close> that
  tests \<^verbatim>\<open>bset[8 - j]\<close> and collects \<^verbatim>\<open>fms + i * 8 + j\<close>.
\<close>

definition bitset8_test :: "collaborators \<Rightarrow> u8 \<Rightarrow> nat \<Rightarrow> bool" where
  "bitset8_test env b pos = (if pos < 8 then bit b pos else bitset8_oob env b)"

definition acked_in_byte :: "collaborators \<Rightarrow> u32 \<Rightarrow> u32 \<Rightarrow> u8 \<Rightarrow> u32 list" where
  "acked_in_byte env fms i b =
     map (\<lambda>j. fms + i * 8 + of_nat j) (filter (\<lambda>j. bitset8_test env b (8 - j)) [0..<8])"

text \<open>The outer loop, over the bytes \<^verbatim>\<open>msg[bitmap_offset + i]\<close> with \<open>i + bitmap_offset < N_bytes\<close>.\<close>

fun acked_from :: "collaborators \<Rightarrow> u32 \<Rightarrow> u32 \<Rightarrow> u8 list \<Rightarrow> u32 list" where
  "acked_from env fms i [] = []"
| "acked_from env fms i (b # bs) = acked_in_byte env fms i b @ acked_from env fms (i + 1) bs"

definition get_acked_sns :: "collaborators \<Rightarrow> u32 \<Rightarrow> u32 \<Rightarrow> byte_buffer_t \<Rightarrow> u32 list option" where
  "get_acked_sns env fms bitmap_offset pdu =
     (if unat bitmap_offset < unat (N_bytes pdu) then
        (if unat (N_bytes pdu) \<le> length (msg pdu)
         then Some (acked_from env fms 0
                      (take (unat (N_bytes pdu) - unat bitmap_offset) (drop (unat bitmap_offset) (msg pdu))))
         else None)
      else Some [])"

text \<open>The last loop: every acknowledged SN is erased from both maps.\<close>

fun discard_acked :: "u32 list \<Rightarrow> pdcp_entity_lte \<Rightarrow> pdcp_entity_lte" where
  "discard_acked [] s = s"
| "discard_acked (sn # sns) s =
     discard_acked sns
       (s\<lparr>undelivered_sdus_queue := map_erase sn (undelivered_sdus_queue s),
          discard_timers_map := map_erase sn (discard_timers_map s)\<rparr>)"

definition handle_status_report_pdu ::
  "collaborators \<Rightarrow> pdcp_entity_lte \<Rightarrow> byte_buffer_t \<Rightarrow> pdcp_entity_lte option" where
  "handle_status_report_pdu env s pdu =
     (case get_fms (sn_len (cfg s)) pdu of
        None \<Rightarrow> None
      | Some None \<Rightarrow> Some s
      | Some (Some (fms, bitmap_offset)) \<Rightarrow>
          (case erase_below_fms fms (undelivered_sdus_queue s) (discard_timers_map s) of
             (q, t) \<Rightarrow>
               (case get_acked_sns env fms bitmap_offset pdu of
                  None \<Rightarrow> None
                | Some acked_sns \<Rightarrow>
                    Some (discard_acked acked_sns
                            (s\<lparr>undelivered_sdus_queue := q, discard_timers_map := t\<rparr>)))))"

subsection \<open>Construction, \<^verbatim>\<open>reset\<close>, the bearer state, \<^verbatim>\<open>check_valid_config\<close>\<close>

text \<open>
  The constructor. The two \<^verbatim>\<open>enable_security_*_sn\<close> members start at \<open>-1\<close> (no
  activation pending), the value the code tests for.
\<close>

definition new_pdcp_entity_lte :: "pdcp_config_t \<Rightarrow> pdcp_entity_lte" where
  "new_pdcp_entity_lte config =
     (let maximum = push_bit (unat (sn_len config)) 1 - 1
      in \<lparr>cfg = config,
          active = True,
          integrity_direction = DIRECTION_NONE,
          encryption_direction = DIRECTION_NONE,
          enable_security_tx_sn = - 1,
          enable_security_rx_sn = - 1,
          reordering_window = (if rb_type config = PDCP_RB_IS_SRB then 0 else 2048),
          maximum_pdcp_sn = maximum,
          st = \<lparr>next_pdcp_tx_sn = 0, tx_hfn = 0, rx_hfn = 0, next_pdcp_rx_sn = 0,
                last_submitted_pdcp_rx_sn = maximum\<rparr>,
          undelivered_sdus_queue = [],
          discard_timers_map = []\<rparr>)"

definition reset :: "pdcp_entity_lte \<Rightarrow> pdcp_entity_lte" where
  "reset s = s\<lparr>active := False\<rparr>"

definition get_bearer_state :: "pdcp_entity_lte \<Rightarrow> pdcp_lte_state_t" where
  "get_bearer_state s = st s"

definition set_bearer_state :: "pdcp_entity_lte \<Rightarrow> pdcp_lte_state_t \<Rightarrow> pdcp_entity_lte" where
  "set_bearer_state s state = s\<lparr>st := state\<rparr>"

definition check_valid_config :: "collaborators \<Rightarrow> pdcp_entity_lte \<Rightarrow> bool" where
  "check_valid_config env s =
     (if sn_len (cfg s) \<noteq> PDCP_SN_LEN_5 \<and> sn_len (cfg s) \<noteq> PDCP_SN_LEN_7
         \<and> sn_len (cfg s) \<noteq> PDCP_SN_LEN_12 then False
      else if sn_len (cfg s) = PDCP_SN_LEN_5 \<and> is_drb s then False
      else if sn_len (cfg s) = PDCP_SN_LEN_7 \<and> (is_srb s \<or> \<not> rb_is_um env) then False
      else if sn_len (cfg s) = PDCP_SN_LEN_12 \<and> is_srb s then False
      else True)"

subsection \<open>The transmit path: \<^verbatim>\<open>store_sdu\<close>, \<^verbatim>\<open>write_sdu\<close>\<close>

text \<open>
  \<^verbatim>\<open>store_sdu\<close> copies the bytes in use into a buffer of its own. The source does not
  test the buffer that \<^verbatim>\<open>make_byte_buffer\<close> returns there; the model takes the
  allocation to succeed and the copy to hold the bytes in use and fresh metadata.
\<close>

definition store_sdu :: "pdcp_entity_lte \<Rightarrow> u32 \<Rightarrow> byte_buffer_t \<Rightarrow> bool \<times> pdcp_entity_lte" where
  "store_sdu s tx_count sdu =
     (if map_find tx_count (undelivered_sdus_queue s) \<noteq> None then (False, s)
      else
        (let sdu_copy = \<lparr>msg = pdu_bytes sdu, N_bytes = N_bytes sdu, md_pdcp_sn = 0\<rparr>
         in (True, s\<lparr>undelivered_sdus_queue :=
                        map_insert tx_count sdu_copy (undelivered_sdus_queue s)\<rparr>)))"

text \<open>
  \<^verbatim>\<open>write_sdu(sdu, upper_sn)\<close>; \<^verbatim>\<open>upper_sn\<close> is an \<^verbatim>\<open>int\<close>, \<open>-1\<close> when the caller gives
  no SN. The answer of RLC to \<^verbatim>\<open>sdu_queue_is_full\<close> is the one of \<open>env\<close>.
\<close>

definition write_sdu ::
  "collaborators \<Rightarrow> pdcp_entity_lte \<Rightarrow> byte_buffer_t \<Rightarrow> u32 \<Rightarrow> pdcp_entity_lte \<times> action list" where
  "write_sdu env s sdu upper_sn =
     (if sdu_queue_is_full env then (s, [])
      else
        (let used_sn = (if upper_sn = - 1 then next_pdcp_tx_sn (st s) else upper_sn);
             tx_count = COUNT s (tx_hfn (st s)) used_sn;
             s1 = (if is_drb s \<and> \<not> rb_is_um env then snd (store_sdu s used_sn sdu) else s);
             s2 = (if enable_security_tx_sn s1 \<noteq> - 1 \<and> enable_security_tx_sn s1 = tx_count
                   then s1\<lparr>integrity_direction := enable_direction (integrity_direction s1) DIRECTION_TX,
                           encryption_direction := enable_direction (encryption_direction s1) DIRECTION_TX,
                           enable_security_tx_sn := - 1\<rparr>
                   else s1);
             sdu1 = write_data_header env (cfg s2) sdu tx_count;
             s3 = (case discard_timer (cfg s2) of
                     infinity \<Rightarrow> s2
                   | ms d \<Rightarrow>
                       s2\<lparr>discard_timers_map :=
                            map_insert tx_count \<lparr>duration = d, discard_sn = used_sn\<rparr>
                              (discard_timers_map s2)\<rparr>);
             do_integrity = (integrity_direction s3 = DIRECTION_TX \<or> integrity_direction s3 = DIRECTION_TXRX);
             mac = (if do_integrity \<and> is_srb s3
                    then integrity_generate env sdu1 (N_bytes sdu1) tx_count
                    else [0, 0, 0, 0]);
             sdu2 = (if is_srb s3 then append_mac env sdu1 mac else sdu1);
             sdu3 = (if encryption_direction s3 = DIRECTION_TX \<or> encryption_direction s3 = DIRECTION_TXRX
                     then cipher_encrypt env sdu2 (unat (hdr_len_bytes (cfg s3)))
                            (N_bytes sdu2 - ucast (hdr_len_bytes (cfg s3))) tx_count
                     else sdu2);
             sdu4 = sdu3\<lparr>md_pdcp_sn := used_sn\<rparr>;
             s4 = (if upper_sn = - 1 then
                     (let n = next_pdcp_tx_sn (st s3) + 1
                      in if n > maximum_pdcp_sn s3
                         then s3\<lparr>st := (st s3)\<lparr>next_pdcp_tx_sn := 0, tx_hfn := tx_hfn (st s3) + 1\<rparr>\<rparr>
                         else s3\<lparr>st := (st s3)\<lparr>next_pdcp_tx_sn := n\<rparr>\<rparr>)
                   else s3)
         in (s4, [RLC_write_sdu sdu4])))"

subsection \<open>Discard timers and delivery notifications\<close>

definition discard_callback :: "pdcp_entity_lte \<Rightarrow> u32 \<Rightarrow> pdcp_entity_lte \<times> action list" where
  "discard_callback parent sn =
     (let p1 = (if map_find sn (undelivered_sdus_queue parent) \<noteq> None
                then parent\<lparr>undelivered_sdus_queue := map_erase sn (undelivered_sdus_queue parent)\<rparr>
                else parent)
      in (p1\<lparr>discard_timers_map := map_erase sn (discard_timers_map p1)\<rparr>,
          [RLC_discard_sdu sn]))"

fun notify_delivery :: "pdcp_entity_lte \<Rightarrow> u32 list \<Rightarrow> pdcp_entity_lte" where
  "notify_delivery s [] = s"
| "notify_delivery s (sn # pdcp_sns) =
     (if map_find sn (undelivered_sdus_queue s) = None then s
      else notify_delivery
             (s\<lparr>undelivered_sdus_queue := map_erase sn (undelivered_sdus_queue s),
                discard_timers_map := map_erase sn (discard_timers_map s)\<rparr>)
             pdcp_sns)"

subsection \<open>\<^verbatim>\<open>reestablish\<close>\<close>

text \<open>The loop that passes every entry of the moved map to \<^verbatim>\<open>write_sdu(it->second, it->first)\<close>.\<close>

fun retransmit ::
  "collaborators \<Rightarrow> (u32 \<times> byte_buffer_t) list \<Rightarrow> pdcp_entity_lte \<Rightarrow> pdcp_entity_lte \<times> action list" where
  "retransmit env [] s = (s, [])"
| "retransmit env ((k, b) # undelivered_sdus) s =
     (case write_sdu env s b k of
        (s1, out1) \<Rightarrow>
          (case retransmit env undelivered_sdus s1 of
             (s2, out2) \<Rightarrow> (s2, out1 @ out2)))"

definition reestablish ::
  "collaborators \<Rightarrow> pdcp_entity_lte \<Rightarrow> (pdcp_entity_lte \<times> action list) option" where
  "reestablish env s =
     (if is_srb s then
        Some (s\<lparr>st := (st s)\<lparr>next_pdcp_tx_sn := 0, tx_hfn := 0, rx_hfn := 0, next_pdcp_rx_sn := 0\<rparr>\<rparr>, [])
      else if rb_is_um env then
        Some (s\<lparr>st := (st s)\<lparr>next_pdcp_tx_sn := 0, tx_hfn := 0, rx_hfn := 0, next_pdcp_rx_sn := 0\<rparr>\<rparr>, [])
      else
        (case send_status_report env s of
           None \<Rightarrow> None
         | Some out0 \<Rightarrow>
             (let undelivered_sdus = undelivered_sdus_queue s;
                  s1 = s\<lparr>undelivered_sdus_queue := []\<rparr>
              in case retransmit env undelivered_sdus s1 of
                   (s2, out1) \<Rightarrow> Some (s2, out0 @ out1))))"

subsection \<open>The receive path\<close>

definition rx_decrypt_enabled :: "pdcp_entity_lte \<Rightarrow> bool" where
  "rx_decrypt_enabled s =
     (encryption_direction s = DIRECTION_RX \<or> encryption_direction s = DIRECTION_TXRX)"

text \<open>The COUNT that \<^verbatim>\<open>handle_srb_pdu\<close> estimates, and the PDU after its decryption step.\<close>

definition srb_rx_count :: "pdcp_entity_lte \<Rightarrow> u32 \<Rightarrow> u32" where
  "srb_rx_count s sn =
     (if sn < next_pdcp_rx_sn (st s) then COUNT s (rx_hfn (st s) + 1) sn
      else COUNT s (rx_hfn (st s)) sn)"

definition srb_deciphered :: "collaborators \<Rightarrow> pdcp_entity_lte \<Rightarrow> byte_buffer_t \<Rightarrow> byte_buffer_t" where
  "srb_deciphered env s pdu =
     (if rx_decrypt_enabled s
      then cipher_decrypt env pdu (unat (hdr_len_bytes (cfg s)))
             (N_bytes pdu - ucast (hdr_len_bytes (cfg s)))
             (srb_rx_count s (read_data_header env (cfg s) pdu))
      else pdu)"

definition handle_srb_pdu ::
  "collaborators \<Rightarrow> pdcp_entity_lte \<Rightarrow> byte_buffer_t \<Rightarrow> pdcp_entity_lte \<times> action list" where
  "handle_srb_pdu env s pdu =
     (let sn = read_data_header env (cfg s) pdu;
          count = srb_rx_count s sn;
          pdu1 = srb_deciphered env s pdu;
          pdu2 = fst (extract_mac env pdu1);
          mac = snd (extract_mac env pdu1)
      in if (integrity_direction s = DIRECTION_RX \<or> integrity_direction s = DIRECTION_TXRX)
            \<and> \<not> integrity_verify env pdu2 (N_bytes pdu2) count mac
         then (s, [])
         else
           (let pdu3 = discard_data_header env (cfg s) pdu2;
                st1 = (if sn < next_pdcp_rx_sn (st s) then (st s)\<lparr>rx_hfn := rx_hfn (st s) + 1\<rparr> else st s);
                st2 = st1\<lparr>next_pdcp_rx_sn := sn + 1\<rparr>;
                st3 = (if next_pdcp_rx_sn st2 > maximum_pdcp_sn s
                       then st2\<lparr>next_pdcp_rx_sn := 0, rx_hfn := rx_hfn st2 + 1\<rparr>
                       else st2)
            in (s\<lparr>st := st3\<rparr>, [RRC_write_pdu pdu3])))"

definition handle_um_drb_pdu ::
  "collaborators \<Rightarrow> pdcp_entity_lte \<Rightarrow> byte_buffer_t \<Rightarrow> pdcp_entity_lte \<times> action list" where
  "handle_um_drb_pdu env s pdu =
     (let sn = read_data_header env (cfg s) pdu;
          pdu1 = discard_data_header env (cfg s) pdu;
          st1 = (if sn < next_pdcp_rx_sn (st s) then (st s)\<lparr>rx_hfn := rx_hfn (st s) + 1\<rparr> else st s);
          count = push_bit (unat (sn_len (cfg s))) (rx_hfn st1) OR sn;
          pdu2 = (if rx_decrypt_enabled s
                  then cipher_decrypt env pdu1 0 (N_bytes pdu1) count
                  else pdu1);
          st2 = st1\<lparr>next_pdcp_rx_sn := sn + 1\<rparr>;
          st3 = (if next_pdcp_rx_sn st2 > maximum_pdcp_sn s
                 then st2\<lparr>next_pdcp_rx_sn := 0, rx_hfn := rx_hfn st2 + 1\<rparr>
                 else st2)
      in (s\<lparr>st := st3\<rparr>, [GW_write_pdu pdu2]))"

text \<open>
  The first test of \<^verbatim>\<open>handle_am_drb_pdu\<close>, on the three \<^verbatim>\<open>int32_t\<close> differences: the
  PDU is a duplicate or outside the window, and is discarded.
\<close>

definition am_discards :: "pdcp_entity_lte \<Rightarrow> u32 \<Rightarrow> bool" where
  "am_discards s sn =
     (let last_submit_diff_sn = last_submitted_pdcp_rx_sn (st s) - sn;
          sn_diff_last_submit = sn - last_submitted_pdcp_rx_sn (st s)
      in (0 \<le> sint sn_diff_last_submit \<and> sint sn_diff_last_submit > sint (reordering_window s))
         \<or> (0 \<le> sint last_submit_diff_sn \<and> sint last_submit_diff_sn < sint (reordering_window s)))"

text \<open>The four branches that follow: the COUNT of the PDU and the state they leave.\<close>

definition am_count_and_state :: "pdcp_entity_lte \<Rightarrow> u32 \<Rightarrow> u32 \<times> pdcp_lte_state_t" where
  "am_count_and_state s sn =
     (let sn_diff_next_pdcp_rx_sn = sn - next_pdcp_rx_sn (st s);
          shift = unat (sn_len (cfg s))
      in if sint (next_pdcp_rx_sn (st s) - sn) > sint (reordering_window s) then
           (push_bit shift (rx_hfn (st s) + 1) OR sn,
            (st s)\<lparr>rx_hfn := rx_hfn (st s) + 1, next_pdcp_rx_sn := sn + 1\<rparr>)
         else if sint sn_diff_next_pdcp_rx_sn \<ge> sint (reordering_window s) then
           (push_bit shift (rx_hfn (st s) - 1) OR sn, st s)
         else if sn \<ge> next_pdcp_rx_sn (st s) then
           (push_bit shift (rx_hfn (st s)) OR sn,
            (if sn + 1 > maximum_pdcp_sn s
             then (st s)\<lparr>next_pdcp_rx_sn := 0, rx_hfn := rx_hfn (st s) + 1\<rparr>
             else (st s)\<lparr>next_pdcp_rx_sn := sn + 1\<rparr>))
         else if sn < next_pdcp_rx_sn (st s) then
           (push_bit shift (rx_hfn (st s)) OR sn, st s)
         else (0, st s))"

definition handle_am_drb_pdu ::
  "collaborators \<Rightarrow> pdcp_entity_lte \<Rightarrow> byte_buffer_t \<Rightarrow> pdcp_entity_lte \<times> action list" where
  "handle_am_drb_pdu env s pdu =
     (let sn = read_data_header env (cfg s) pdu;
          pdu1 = discard_data_header env (cfg s) pdu
      in if am_discards s sn then (s, [])
         else
           (let count = fst (am_count_and_state s sn);
                st1 = snd (am_count_and_state s sn);
                pdu2 = cipher_decrypt env pdu1 0 (N_bytes pdu1) count
            in (s\<lparr>st := st1\<lparr>last_submitted_pdcp_rx_sn := sn\<rparr>\<rparr>, [GW_write_pdu pdu2])))"



subsection \<open>Sequences of calls and events\<close>

text \<open>
  A sequence of \<^verbatim>\<open>write_sdu\<close> calls, each with its SDU and its \<^verbatim>\<open>upper_sn\<close>, and the
  number of them that give no SN.
\<close>

fun write_sdu_calls ::
  "collaborators \<Rightarrow> pdcp_entity_lte \<Rightarrow> (byte_buffer_t \<times> u32) list \<Rightarrow> pdcp_entity_lte \<times> action list" where
  "write_sdu_calls env s [] = (s, [])"
| "write_sdu_calls env s ((sdu, upper_sn) # calls) =
     (case write_sdu env s sdu upper_sn of
        (s1, out1) \<Rightarrow>
          (case write_sdu_calls env s1 calls of
             (s2, out2) \<Rightarrow> (s2, out1 @ out2)))"

definition calls_without_sn :: "(byte_buffer_t \<times> u32) list \<Rightarrow> nat" where
  "calls_without_sn calls = length (filter (\<lambda>c. snd c = - 1) calls)"

text \<open>
  What happens to an entity between construction and destruction, as far as the
  retransmission queue goes: a \<^verbatim>\<open>write_sdu\<close> call (with the answer RLC gives to
  \<^verbatim>\<open>sdu_queue_is_full\<close> at that moment), the expiry of a discard timer that the map
  holds under some key (the timer service runs its \<^verbatim>\<open>discard_callback\<close>), and a
  delivery notification. A timer that its callback leaves in the map may expire again
  in the model, which the timer service does not do: the runs of the model include
  those of the entity.
\<close>

datatype event =
    Write_sdu bool byte_buffer_t u32
  | Discard_timer_expired u32
  | Notify_delivery "u32 list"

fun step :: "collaborators \<Rightarrow> pdcp_entity_lte \<Rightarrow> event \<Rightarrow> pdcp_entity_lte" where
  "step env s (Write_sdu full sdu upper_sn) =
     fst (write_sdu (env\<lparr>sdu_queue_is_full := full\<rparr>) s sdu upper_sn)"
| "step env s (Discard_timer_expired k) =
     (case map_find k (discard_timers_map s) of
        None \<Rightarrow> s
      | Some t \<Rightarrow> fst (discard_callback s (discard_sn t)))"
| "step env s (Notify_delivery pdcp_sns) = notify_delivery s pdcp_sns"

definition run :: "collaborators \<Rightarrow> pdcp_entity_lte \<Rightarrow> event list \<Rightarrow> pdcp_entity_lte" where
  "run env s evs = foldl (step env) s evs"

text \<open>The SNs that the \<^verbatim>\<open>write_sdu\<close> calls of a sequence of events give as \<^verbatim>\<open>upper_sn\<close>.\<close>

fun upper_sns :: "event list \<Rightarrow> u32 list" where
  "upper_sns [] = []"
| "upper_sns (Write_sdu full sdu upper_sn # evs) =
     (if upper_sn = - 1 then upper_sns evs else upper_sn # upper_sns evs)"
| "upper_sns (e # evs) = upper_sns evs"

text \<open>
  The SDUs that a sequence of events sends: for every PDU that a \<^verbatim>\<open>write_sdu\<close> call of
  the sequence hands to RLC, the SN that the PDU carries in \<^verbatim>\<open>md.pdcp_sn\<close> (the SN it
  is sent with) and the copy of the SDU of that call, as \<^verbatim>\<open>store_sdu\<close> makes it.
\<close>

fun sent_with :: "byte_buffer_t \<Rightarrow> action list \<Rightarrow> (u32 \<times> byte_buffer_t) list" where
  "sent_with sdu [] = []"
| "sent_with sdu (RLC_write_sdu pdu # out) =
     (md_pdcp_sn pdu, \<lparr>msg = pdu_bytes sdu, N_bytes = N_bytes sdu, md_pdcp_sn = 0\<rparr>)
       # sent_with sdu out"
| "sent_with sdu (a # out) = sent_with sdu out"

fun sent_sdus ::
  "collaborators \<Rightarrow> pdcp_entity_lte \<Rightarrow> event list \<Rightarrow> (u32 \<times> byte_buffer_t) list" where
  "sent_sdus env s [] = []"
| "sent_sdus env s (Write_sdu full sdu upper_sn # evs) =
     sent_with sdu (snd (write_sdu (env\<lparr>sdu_queue_is_full := full\<rparr>) s sdu upper_sn))
       @ sent_sdus env (step env s (Write_sdu full sdu upper_sn)) evs"
| "sent_sdus env s (e # evs) = sent_sdus env (step env s e) evs"

text \<open>The bytes of the PDUs that a list of actions hands to RLC.\<close>

fun sent_to_rlc :: "action list \<Rightarrow> u8 list list" where
  "sent_to_rlc [] = []"
| "sent_to_rlc (RLC_write_sdu pdu # out) = pdu_bytes pdu # sent_to_rlc out"
| "sent_to_rlc (a # out) = sent_to_rlc out"

text \<open>The bytes of the PDUs that a list of actions hands to the gateway.\<close>

fun sent_to_gw :: "action list \<Rightarrow> u8 list list" where
  "sent_to_gw [] = []"
| "sent_to_gw (GW_write_pdu pdu # out) = pdu_bytes pdu # sent_to_gw out"
| "sent_to_gw (a # out) = sent_to_gw out"

subsection \<open>Collaborators and entities of the examples\<close>

text \<open>
  Modelled from the spec: the framing helpers of the base class for the examples, after
  the header table of the spec (the SN right-aligned in \<open>hdr_len_bytes\<close> bytes, the
  data/control bit the highest bit of byte 0, set on the data PDUs of a DRB; a MAC-I of
  four bytes after the payload), with a cipher that leaves the bytes as they are.
\<close>

definition example_write_data_header :: "pdcp_config_t \<Rightarrow> byte_buffer_t \<Rightarrow> u32 \<Rightarrow> byte_buffer_t" where
  "example_write_data_header c b count =
     (let sn = count AND (push_bit (unat (sn_len c)) 1 - 1);
          dc = (if rb_type c = PDCP_RB_IS_DRB then 0x80 else 0);
          hdr = (if hdr_len_bytes c = 1 then [dc OR ucast sn]
                 else if hdr_len_bytes c = 2 then [dc OR ucast (drop_bit 8 sn), ucast sn]
                 else [dc OR ucast (drop_bit 16 sn), ucast (drop_bit 8 sn), ucast sn])
      in b\<lparr>msg := hdr @ msg b, N_bytes := N_bytes b + ucast (hdr_len_bytes c)\<rparr>)"

definition example_read_data_header :: "pdcp_config_t \<Rightarrow> byte_buffer_t \<Rightarrow> u32" where
  "example_read_data_header c b =
     foldl (\<lambda>a x. push_bit 8 a OR ucast x) 0 (take (unat (hdr_len_bytes c)) (msg b))
       AND (push_bit (unat (sn_len c)) 1 - 1)"

definition example_discard_data_header :: "pdcp_config_t \<Rightarrow> byte_buffer_t \<Rightarrow> byte_buffer_t" where
  "example_discard_data_header c b =
     b\<lparr>msg := drop (unat (hdr_len_bytes c)) (msg b), N_bytes := N_bytes b - ucast (hdr_len_bytes c)\<rparr>"

definition example_is_control_pdu :: "byte_buffer_t \<Rightarrow> bool" where
  "example_is_control_pdu b = (case msg b of [] \<Rightarrow> False | b0 # bs \<Rightarrow> \<not> bit b0 7)"

definition example_get_control_pdu_type :: "byte_buffer_t \<Rightarrow> u8" where
  "example_get_control_pdu_type b = (case msg b of [] \<Rightarrow> 0 | b0 # bs \<Rightarrow> drop_bit 4 b0 AND 0x07)"

definition example_append_mac :: "byte_buffer_t \<Rightarrow> u8 list \<Rightarrow> byte_buffer_t" where
  "example_append_mac b mac = b\<lparr>msg := pdu_bytes b @ mac, N_bytes := N_bytes b + 4\<rparr>"

definition example_extract_mac :: "byte_buffer_t \<Rightarrow> byte_buffer_t \<times> u8 list" where
  "example_extract_mac b =
     (b\<lparr>N_bytes := N_bytes b - 4\<rparr>, take 4 (drop (unat (N_bytes b) - 4) (msg b)))"

text \<open>A buffer of the pool with 8 bytes of storage, and a buffer that holds given bytes.\<close>

definition pool_buffer :: byte_buffer_t where
  "pool_buffer = \<lparr>msg = [0, 0, 0, 0, 0, 0, 0, 0], N_bytes = 0, md_pdcp_sn = 0\<rparr>"

definition buffer_of :: "u8 list \<Rightarrow> byte_buffer_t" where
  "buffer_of bs = \<lparr>msg = bs, N_bytes = of_nat (length bs), md_pdcp_sn = 0\<rparr>"

text \<open>
  The collaborators of the examples: RLC in acknowledged mode with room in its queue,
  integrity that accepts the MAC-I \<open>[1, 2, 3, 4]\<close> alone, and \<open>bset[8]\<close> read as
  \<open>oob\<close>.
\<close>

definition example_collaborators :: "bool \<Rightarrow> collaborators" where
  "example_collaborators oob =
     \<lparr>rb_is_um = False,
      sdu_queue_is_full = False,
      make_byte_buffer = Some pool_buffer,
      bitset8_oob = (\<lambda>b. oob),
      write_data_header = example_write_data_header,
      read_data_header = example_read_data_header,
      discard_data_header = example_discard_data_header,
      is_control_pdu = example_is_control_pdu,
      get_control_pdu_type = example_get_control_pdu_type,
      append_mac = example_append_mac,
      extract_mac = example_extract_mac,
      integrity_generate = (\<lambda>b len count. [1, 2, 3, 4]),
      integrity_verify = (\<lambda>b len count mac. mac = [1, 2, 3, 4]),
      cipher_encrypt = (\<lambda>b off len count. b),
      cipher_decrypt = (\<lambda>b off len count. b)\<rparr>"

definition drb_config :: "u8 \<Rightarrow> u8 \<Rightarrow> pdcp_discard_timer_t \<Rightarrow> bool \<Rightarrow> pdcp_config_t" where
  "drb_config len hdr timer report =
     \<lparr>rb_type = PDCP_RB_IS_DRB, sn_len = len, hdr_len_bytes = hdr, discard_timer = timer,
      status_report_required = report\<rparr>"

definition srb_config :: pdcp_config_t where
  "srb_config =
     \<lparr>rb_type = PDCP_RB_IS_SRB, sn_len = 5, hdr_len_bytes = 1, discard_timer = infinity,
      status_report_required = False\<rparr>"

text \<open>
  Scenario S3 of the spec: a DRB on RLC AM with \<open>sn_len = 12\<close>, \<open>next_tx_sn = 10\<close> and
  the keys 3, 5 and 8 in the queue.
\<close>

definition scenario_S3 :: pdcp_entity_lte where
  "scenario_S3 =
     (new_pdcp_entity_lte (drb_config 12 2 infinity True))
       \<lparr>st := \<lparr>next_pdcp_tx_sn = 10, tx_hfn = 0, rx_hfn = 0, next_pdcp_rx_sn = 0,
               last_submitted_pdcp_rx_sn = 4095\<rparr>,
        undelivered_sdus_queue := [(3, buffer_of [0xA]), (5, buffer_of [0xB]), (8, buffer_of [0xC])]\<rparr>"

text \<open>The buffer that the entity of scenario S3 hands to RLC as its status report.\<close>

definition report_S3 :: byte_buffer_t where
  "report_S3 = \<lparr>msg = [0x00, 0x03, 0xA4, 0, 0, 0, 0, 0], N_bytes = 3, md_pdcp_sn = 0\<rparr>"

text \<open>A DRB on RLC AM with \<open>sn_len = 18\<close> that holds one SDU, under the key \<open>0x4000\<close>.\<close>

definition entity_18 :: pdcp_entity_lte where
  "entity_18 =
     (new_pdcp_entity_lte (drb_config 18 3 infinity False))
       \<lparr>undelivered_sdus_queue := [(0x4000, buffer_of [0xA])]\<rparr>"

text \<open>An SRB whose integrity protection is enabled in the receive direction.\<close>

definition srb_rx_integrity :: pdcp_entity_lte where
  "srb_rx_integrity = (new_pdcp_entity_lte srb_config)\<lparr>integrity_direction := DIRECTION_RX\<rparr>"

text \<open>Collaborators whose \<^verbatim>\<open>cipher_decrypt\<close> complements every byte of the buffer.\<close>

definition complementing_collaborators :: collaborators where
  "complementing_collaborators =
     (example_collaborators False)
       \<lparr>cipher_decrypt := (\<lambda>b off len count. b\<lparr>msg := map (\<lambda>x. NOT x) (msg b)\<rparr>)\<rparr>"

text \<open>
  Scenario S2 of the spec: a DRB on RLC UM with \<open>sn_len = 7\<close> and \<open>next_tx_sn = 126\<close>,
  and collaborators whose RLC is in unacknowledged mode.
\<close>

definition scenario_S2 :: pdcp_entity_lte where
  "scenario_S2 =
     (new_pdcp_entity_lte (drb_config 7 1 infinity False))
       \<lparr>st := \<lparr>next_pdcp_tx_sn = 126, tx_hfn = 0, rx_hfn = 0, next_pdcp_rx_sn = 0,
               last_submitted_pdcp_rx_sn = 127\<rparr>\<rparr>"

definition um_collaborators :: collaborators where
  "um_collaborators = (example_collaborators False)\<lparr>rb_is_um := True\<rparr>"

text \<open>A DRB on RLC AM with \<open>sn_len = 12\<close> that holds one SDU, under the key 1.\<close>

definition entity_key_1 :: pdcp_entity_lte where
  "entity_key_1 =
     (new_pdcp_entity_lte (drb_config 12 2 infinity False))
       \<lparr>undelivered_sdus_queue := [(1, buffer_of [0xA])]\<rparr>"

text \<open>
  A DRB on RLC AM with \<open>sn_len = 12\<close> and a discard timer of 10 ms, as constructed but
  for the two transmit counters; and \<open>n\<close> rounds of a \<^verbatim>\<open>write_sdu\<close> call followed by
  the delivery notification for the SN it used, the first round with SN 0.
\<close>

definition am_drb_state :: "u32 \<Rightarrow> u32 \<Rightarrow> pdcp_entity_lte" where
  "am_drb_state sn hfn =
     (new_pdcp_entity_lte (drb_config 12 2 (ms 10) False))
       \<lparr>st := \<lparr>next_pdcp_tx_sn = sn, tx_hfn = hfn, rx_hfn = 0, next_pdcp_rx_sn = 0,
               last_submitted_pdcp_rx_sn = 4095\<rparr>\<rparr>"

definition deliver_each :: "nat \<Rightarrow> event list" where
  "deliver_each n =
     concat (map (\<lambda>i. [Write_sdu False (buffer_of [0xA]) (- 1), Notify_delivery [of_nat i]]) [0..<n])"

text \<open>
  Five events on a DRB without a discard timer: an SDU sent with SN 0, one sent with
  the SN 5000 of the caller, one dropped on a full RLC queue, the delivery of SN 0, and
  the expiry of a timer under the key 5000.
\<close>

definition five_events :: "event list" where
  "five_events =
     [Write_sdu False (buffer_of [1]) (- 1),
      Write_sdu False (buffer_of [2]) 5000,
      Write_sdu True (buffer_of [3]) (- 1),
      Notify_delivery [0],
      Discard_timer_expired 5000]"

subsection \<open>The invariant of the retransmission queue\<close>

text \<open>
  What every event keeps: \<open>next_pdcp_tx_sn\<close> is at most \<open>maximum_pdcp_sn\<close>, every key
  of the queue is at most \<open>maximum_pdcp_sn\<close> or one of the SNs \<open>U\<close> that callers gave,
  and an entity without a discard timer holds no timer.
\<close>

definition queue_inv :: "pdcp_entity_lte \<Rightarrow> u32 set \<Rightarrow> bool" where
  "queue_inv s U =
     (next_pdcp_tx_sn (st s) \<le> maximum_pdcp_sn s
      \<and> (\<forall>k \<in> set (map_keys (undelivered_sdus_queue s)). k \<le> maximum_pdcp_sn s \<or> k \<in> U)
      \<and> (discard_timer (cfg s) = infinity \<longrightarrow> discard_timers_map s = []))"

section \<open>Properties\<close>

lemmas sn_len_defs = PDCP_SN_LEN_5_def PDCP_SN_LEN_7_def PDCP_SN_LEN_12_def PDCP_SN_LEN_18_def

lemmas report_defs = send_status_report_def status_report_fms_def set_fms_def add_bitmap_def
  bitmap_size_def msg_get_def msg_set_def msg_zero_def PDCP_DC_FIELD_CONTROL_PDU_def
  PDCP_PDU_TYPE_STATUS_REPORT_def pdu_bytes_def

lemmas handle_defs = handle_status_report_pdu_def get_fms_def get_acked_sns_def acked_in_byte_def
  bitset8_test_def uint8_to_uint16_def uint8_to_uint24_def msg_get_def map_keys_def

lemmas example_defs = example_collaborators_def pool_buffer_def buffer_of_def drb_config_def
  srb_config_def new_pdcp_entity_lte_def scenario_S3_def report_S3_def entity_18_def
  srb_rx_integrity_def complementing_collaborators_def scenario_S2_def um_collaborators_def
  entity_key_1_def am_drb_state_def

lemmas framing_defs = example_write_data_header_def example_read_data_header_def
  example_discard_data_header_def example_is_control_pdu_def example_get_control_pdu_type_def
  example_append_mac_def example_extract_mac_def

subsection \<open>The status report of scenario S3\<close>

text \<open>
  The report of an entity on RLC AM with \<open>sn_len = 12\<close> whose queue holds the keys 3, 5
  and 8, written into any pool buffer with room for three bytes: the two bytes of the
  FMS, \<open>0x00\<close> and \<open>0x03\<close>, and one bitmap byte with the bits of the offsets 0, 2 and 5
  counted from the highest bit, \<open>10100100 = 0xA4\<close>.
\<close>

lemma status_report_3_5_8:
  assumes um: "\<not> rb_is_um env"
    and pool: "make_byte_buffer env = Some b" "3 \<le> length (msg b)"
    and len: "sn_len (cfg s) = PDCP_SN_LEN_12"
    and keys: "map_keys (undelivered_sdus_queue s) = [3, 5, 8]"
  shows "map_option sent_to_rlc (send_status_report env s) = Some [[0x00, 0x03, 0xA4]]"
proof -
  obtain x0 x1 x2 xs where b: "msg b = x0 # x1 # x2 # xs"
    using pool(2)
    by (cases "msg b"; simp; cases "tl (msg b)"; simp; cases "tl (tl (msg b))"; simp)
  obtain v3 v5 v8 where q: "undelivered_sdus_queue s = [(3, v3), (5, v5), (8, v8)]"
    using keys by (auto simp: map_keys_def)
  show ?thesis
    using um pool(1) len by (simp add: report_defs sn_len_defs b q)
qed

text \<open>
  Claim C7, as the spec states it: in scenario S3 (\<open>sn_len = 12\<close>, \<open>next_tx_sn = 10\<close>,
  keys 3, 5 and 8) \<^verbatim>\<open>send_status_report\<close> emits the three bytes \<open>0x00\<close>, \<open>0x03\<close> and
  \<open>10010100 = 0x94\<close>. The entity does not: the PDU it hands to RLC is not these bytes.
\<close>

theorem status_report_S3_is_not_0x94:
  "map_option sent_to_rlc (send_status_report (example_collaborators False) scenario_S3)
     \<noteq> Some [[0x00, 0x03, 0x94]]"
  by (simp add: report_defs sn_len_defs example_defs)

text \<open>
  Claim C7, amended: for a DRB/AM entity with \<open>sn_len = 12\<close> and the keys 3, 5 and 8 in
  its queue (whatever \<open>next_tx_sn\<close> is), \<^verbatim>\<open>send_status_report\<close> hands RLC one PDU of
  exactly three bytes: byte 0 \<open>= 0x00\<close>, byte 1 \<open>= 0x03\<close> (FMS = 3), and one bitmap byte
  \<open>10100100 = 0xA4\<close>, the bits set at the offsets 0, 2 and 5 from the FMS.
\<close>

theorem status_report_S3_bytes:
  assumes "\<not> rb_is_um env"
    and "make_byte_buffer env = Some b" and "3 \<le> length (msg b)"
    and "sn_len (cfg s) = PDCP_SN_LEN_12"
    and "map_keys (undelivered_sdus_queue s) = [3, 5, 8]"
  shows "map_option sent_to_rlc (send_status_report env s) = Some [[0x00, 0x03, 0xA4]]"
  using assms by (rule status_report_3_5_8)

theorem status_report_S3_bytes_witness:
  "\<not> rb_is_um (example_collaborators False)
   \<and> make_byte_buffer (example_collaborators False) = Some pool_buffer
   \<and> 3 \<le> length (msg pool_buffer)
   \<and> sn_len (cfg scenario_S3) = PDCP_SN_LEN_12
   \<and> next_pdcp_tx_sn (st scenario_S3) = 10
   \<and> map_keys (undelivered_sdus_queue scenario_S3) = [3, 5, 8]
   \<and> map_option sent_to_rlc (send_status_report (example_collaborators False) scenario_S3)
       = Some [[0x00, 0x03, 0xA4]]"
  using status_report_S3_bytes [of "example_collaborators False" pool_buffer scenario_S3]
  by (simp add: example_defs sn_len_defs map_keys_def)

subsection \<open>The round trip of a status report\<close>

text \<open>
  Claim C1 at scenario S3: the entity encodes its report, \<open>report_S3\<close>, and an entity
  that holds the same keys 3, 5 and 8 consumes it. The claim has the three reported keys
  leave the queue. The loop of \<^verbatim>\<open>handle_status_report_pdu\<close> tests \<^verbatim>\<open>bset[8 - j]\<close>, so
  the bit of offset \<open>j\<close> is read as the SN \<open>FMS + j + 1\<close> and the SNs the report is
  taken to carry are 4, 6 and 9: all three keys stay, or 5 and 8 stay when the read of
  \<^verbatim>\<open>bset[8]\<close>, which is outside the bitset, happens to yield true.
\<close>

theorem status_report_round_trip_S3:
  "send_status_report (example_collaborators oob) scenario_S3 = Some [RLC_write_sdu report_S3]
   \<and> map_option (map_keys \<circ> undelivered_sdus_queue)
        (handle_status_report_pdu (example_collaborators False) scenario_S3 report_S3)
       = Some [3, 5, 8]
   \<and> map_option (map_keys \<circ> undelivered_sdus_queue)
        (handle_status_report_pdu (example_collaborators True) scenario_S3 report_S3)
       = Some [5, 8]"
  by (simp add: report_defs handle_defs sn_len_defs example_defs upt_rec)

subsection \<open>The FMS of a received status report\<close>

text \<open>
  Claim C6 at the PDU \<open>0x03 0xFF 0xFF\<close> with \<open>sn_len = 18\<close>: the low 18 bits of the
  three header bytes are \<open>0x3FFFF\<close>, and \<^verbatim>\<open>handle_status_report_pdu\<close> masks them with
  \<open>0x3FFF\<close>, 14 bits, so that the FMS it decodes is \<open>0x3FFF\<close>; the SDU stored under
  \<open>0x4000\<close>, below the FMS that was sent, stays in the queue.
\<close>

theorem fms_18_decoded_with_14_bits:
  "get_fms PDCP_SN_LEN_18 (buffer_of [0x03, 0xFF, 0xFF]) = Some (Some (0x3FFF, 3))
   \<and> uint8_to_uint24 0x03 0xFF 0xFF AND 0x3FFFF = 0x3FFFF
   \<and> map_option (map_keys \<circ> undelivered_sdus_queue)
        (handle_status_report_pdu (example_collaborators False) entity_18
           (buffer_of [0x03, 0xFF, 0xFF]))
       = Some [0x4000]"
  by (simp add: handle_defs sn_len_defs example_defs)

subsection \<open>\<^verbatim>\<open>check_valid_config\<close>\<close>

text \<open>
  Claim C5, as the spec states it: a DRB configured with \<open>sn_len = 18\<close> is accepted.
  \<^verbatim>\<open>check_valid_config\<close> returns false for it, on RLC AM and on RLC UM.
\<close>

theorem check_valid_config_rejects_18:
  "\<not> check_valid_config (example_collaborators False)
        (new_pdcp_entity_lte (drb_config 18 3 infinity False))
   \<and> \<not> check_valid_config ((example_collaborators False)\<lparr>rb_is_um := True\<rparr>)
          (new_pdcp_entity_lte (drb_config 18 3 infinity False))"
  by (simp add: check_valid_config_def sn_len_defs example_defs)

text \<open>
  Claim C5, amended: \<^verbatim>\<open>check_valid_config\<close> accepts exactly an SRB with \<open>sn_len = 5\<close>,
  a DRB over RLC UM with \<open>sn_len\<close> 7 or 12, and a DRB over RLC AM with \<open>sn_len = 12\<close>;
  every configuration with \<open>sn_len = 18\<close> is rejected.
\<close>

theorem check_valid_config_accepts:
  "check_valid_config env s =
     (sn_len (cfg s) = 5 \<and> is_srb s
      \<or> sn_len (cfg s) = 7 \<and> is_drb s \<and> rb_is_um env
      \<or> sn_len (cfg s) = 12 \<and> is_drb s)"
  by (cases "rb_type (cfg s)")
     (auto simp add: check_valid_config_def sn_len_defs is_srb_def is_drb_def)

theorem check_valid_config_accepts_witness:
  "check_valid_config (example_collaborators False) (new_pdcp_entity_lte (drb_config 12 2 infinity False))
   \<and> check_valid_config (example_collaborators False) (new_pdcp_entity_lte srb_config)
   \<and> \<not> check_valid_config (example_collaborators False) (new_pdcp_entity_lte (drb_config 7 1 infinity False))"
  using check_valid_config_accepts [of "example_collaborators False"
      "new_pdcp_entity_lte (drb_config 12 2 infinity False)"]
    check_valid_config_accepts [of "example_collaborators False" "new_pdcp_entity_lte srb_config"]
    check_valid_config_accepts [of "example_collaborators False"
      "new_pdcp_entity_lte (drb_config 7 1 infinity False)"]
  by (simp add: example_defs is_srb_def is_drb_def)

subsection \<open>\<^verbatim>\<open>reestablish\<close>\<close>

text \<open>
  Claim C3 at a DRB on RLC AM with \<open>sn_len = 12\<close>, \<open>status_report_required = false\<close>
  and an empty queue: the claim has no status report sent, since the entity is not
  configured to. \<^verbatim>\<open>reestablish\<close> calls \<^verbatim>\<open>send_status_report\<close> without a test of the
  configuration, and RLC receives the report \<open>0x00 0x00\<close>.
\<close>

theorem reestablish_reports_when_not_required:
  "\<not> status_report_required (cfg (new_pdcp_entity_lte (drb_config 12 2 infinity False)))
   \<and> map_option (sent_to_rlc \<circ> snd)
        (reestablish (example_collaborators False)
           (new_pdcp_entity_lte (drb_config 12 2 infinity False)))
       = Some [[0x00, 0x00]]"
  by (simp add: reestablish_def is_srb_def report_defs sn_len_defs example_defs)

subsection \<open>Integrity failure on an SRB\<close>

text \<open>
  Claim C4: with integrity enabled in the receive direction (\<open>RX\<close> or \<open>TXRX\<close>), when
  \<^verbatim>\<open>integrity_verify\<close> fails on the deciphered PDU, its extracted MAC-I and the
  estimated COUNT, \<^verbatim>\<open>handle_srb_pdu\<close> returns with the entity as it was
  (\<open>next_pdcp_rx_sn\<close>, \<open>rx_hfn\<close> and every other member) and with no call to RRC or to any
  other collaborator. The function does not test the kind of the bearer, so this holds
  of every entity it is called on, the SRBs among them.
\<close>

theorem srb_integrity_failure_drops:
  assumes "integrity_direction s = DIRECTION_RX \<or> integrity_direction s = DIRECTION_TXRX"
    and "\<not> integrity_verify env (fst (extract_mac env (srb_deciphered env s pdu)))
             (N_bytes (fst (extract_mac env (srb_deciphered env s pdu))))
             (srb_rx_count s (read_data_header env (cfg s) pdu))
             (snd (extract_mac env (srb_deciphered env s pdu)))"
  shows "handle_srb_pdu env s pdu = (s, [])"
  using assms by (simp add: handle_srb_pdu_def Let_def)

theorem srb_integrity_failure_drops_witness:
  "is_srb srb_rx_integrity
   \<and> integrity_direction srb_rx_integrity = DIRECTION_RX
   \<and> snd (extract_mac (example_collaborators False)
             (srb_deciphered (example_collaborators False) srb_rx_integrity
                (buffer_of [0x00, 0x55, 9, 9, 9, 9]))) = [9, 9, 9, 9]
   \<and> handle_srb_pdu (example_collaborators False) srb_rx_integrity
        (buffer_of [0x00, 0x55, 9, 9, 9, 9])
       = (srb_rx_integrity, [])"
  using srb_integrity_failure_drops [of srb_rx_integrity "example_collaborators False"
      "buffer_of [0x00, 0x55, 9, 9, 9, 9]"]
  by (simp add: example_defs framing_defs srb_deciphered_def rx_decrypt_enabled_def is_srb_def)

subsection \<open>Decryption in the three receive handlers\<close>

text \<open>
  Claim C9: on every PDU that \<^verbatim>\<open>handle_am_drb_pdu\<close> does not discard, what the gateway
  receives is the result of \<^verbatim>\<open>cipher_decrypt\<close> on the whole buffer left by
  \<^verbatim>\<open>discard_data_header\<close>, whatever \<open>encryption_direction\<close> is (\<open>NONE\<close> included),
  whereas \<^verbatim>\<open>handle_um_drb_pdu\<close> and \<^verbatim>\<open>handle_srb_pdu\<close> leave the buffer undeciphered
  when encryption is not enabled in the receive direction, and decipher it when it is:
  the gateway receives from \<^verbatim>\<open>handle_um_drb_pdu\<close> the buffer as it is or deciphered,
  and what RRC receives from \<^verbatim>\<open>handle_srb_pdu\<close>, if anything, is made from the PDU as it
  is or deciphered, by the same test.
\<close>

theorem am_drb_decrypts_unconditionally:
  "(\<not> am_discards s (read_data_header env (cfg s) pdu) \<longrightarrow>
      snd (handle_am_drb_pdu env (s\<lparr>encryption_direction := d\<rparr>) pdu) =
        [GW_write_pdu
           (cipher_decrypt env (discard_data_header env (cfg s) pdu) 0
              (N_bytes (discard_data_header env (cfg s) pdu))
              (fst (am_count_and_state s (read_data_header env (cfg s) pdu))))])
   \<and> (\<not> rx_decrypt_enabled s \<longrightarrow>
        snd (handle_um_drb_pdu env s pdu) = [GW_write_pdu (discard_data_header env (cfg s) pdu)])
   \<and> (\<not> rx_decrypt_enabled s \<longrightarrow> srb_deciphered env s pdu = pdu)
   \<and> (rx_decrypt_enabled s \<longrightarrow>
        snd (handle_um_drb_pdu env s pdu) =
          [GW_write_pdu
             (cipher_decrypt env (discard_data_header env (cfg s) pdu) 0
                (N_bytes (discard_data_header env (cfg s) pdu))
                (push_bit (unat (sn_len (cfg s)))
                   (if read_data_header env (cfg s) pdu < next_pdcp_rx_sn (st s)
                    then rx_hfn (st s) + 1 else rx_hfn (st s))
                 OR read_data_header env (cfg s) pdu))])
   \<and> (rx_decrypt_enabled s \<longrightarrow>
        srb_deciphered env s pdu =
          cipher_decrypt env pdu (unat (hdr_len_bytes (cfg s)))
            (N_bytes pdu - ucast (hdr_len_bytes (cfg s)))
            (srb_rx_count s (read_data_header env (cfg s) pdu)))
   \<and> (snd (handle_srb_pdu env s pdu) = []
        \<or> snd (handle_srb_pdu env s pdu) =
            [RRC_write_pdu
               (discard_data_header env (cfg s)
                  (fst (extract_mac env (srb_deciphered env s pdu))))])"
  by (simp add: handle_am_drb_pdu_def handle_um_drb_pdu_def handle_srb_pdu_def
      srb_deciphered_def Let_def am_discards_def am_count_and_state_def)

theorem am_drb_decrypts_unconditionally_witness:
  "read_data_header complementing_collaborators (drb_config 12 2 infinity False)
       (buffer_of [0x80, 0x00, 0x0F]) = 0
   \<and> \<not> am_discards (new_pdcp_entity_lte (drb_config 12 2 infinity False)) 0
   \<and> \<not> rx_decrypt_enabled (new_pdcp_entity_lte (drb_config 12 2 infinity False))
   \<and> sent_to_gw (snd (handle_am_drb_pdu complementing_collaborators
        ((new_pdcp_entity_lte (drb_config 12 2 infinity False))\<lparr>encryption_direction := DIRECTION_NONE\<rparr>)
        (buffer_of [0x80, 0x00, 0x0F]))) = [[0xF0]]
   \<and> sent_to_gw (snd (handle_um_drb_pdu complementing_collaborators
        (new_pdcp_entity_lte (drb_config 12 2 infinity False))
        (buffer_of [0x80, 0x00, 0x0F]))) = [[0x0F]]"
  using am_drb_decrypts_unconditionally [of "new_pdcp_entity_lte (drb_config 12 2 infinity False)"
      complementing_collaborators "buffer_of [0x80, 0x00, 0x0F]" DIRECTION_NONE]
  by (simp add: example_defs framing_defs rx_decrypt_enabled_def am_discards_def pdu_bytes_def)

subsection \<open>Control PDUs and the length check of \<^verbatim>\<open>write_pdu\<close>\<close>





subsection \<open>The transmit counters\<close>

lemma write_sdu_full: "sdu_queue_is_full env \<Longrightarrow> write_sdu env s sdu u = (s, [])"
  by (simp add: write_sdu_def)

lemma write_sdu_frame:
  "maximum_pdcp_sn (fst (write_sdu env s sdu u)) = maximum_pdcp_sn s"
  "cfg (fst (write_sdu env s sdu u)) = cfg s"
  by (simp_all add: write_sdu_def Let_def store_sdu_def split: pdcp_discard_timer_t.split)

lemma write_sdu_st_upper:
  "u \<noteq> - 1 \<Longrightarrow> st (fst (write_sdu env s sdu u)) = st s"
  by (simp add: write_sdu_def Let_def store_sdu_def split: pdcp_discard_timer_t.split)

lemma write_sdu_st_next:
  "\<not> sdu_queue_is_full env \<Longrightarrow>
   st (fst (write_sdu env s sdu (- 1))) =
     (if next_pdcp_tx_sn (st s) + 1 > maximum_pdcp_sn s
      then (st s)\<lparr>next_pdcp_tx_sn := 0, tx_hfn := tx_hfn (st s) + 1\<rparr>
      else (st s)\<lparr>next_pdcp_tx_sn := next_pdcp_tx_sn (st s) + 1\<rparr>)"
  by (simp add: write_sdu_def Let_def store_sdu_def split: pdcp_discard_timer_t.split)

lemma max_not_wrap:
  fixes m :: u32
  assumes "m \<noteq> - 1"
  shows "unat m < 2 ^ 32 - 1"
proof -
  have "unat m \<noteq> unat (- 1 :: u32)"
    using assms by (simp add: word_unat_eq_iff)
  moreover have "unat m < 2 ^ 32"
    using unsigned_less [of m] by simp
  ultimately show ?thesis
    by (simp add: unsigned_minus_1_eq_mask mask_eq_exp_minus_1)
qed

lemma tx_step_arith:
  fixes n m :: u32
  assumes "n \<le> m" "m \<noteq> - 1"
  shows "(n + 1 > m) = (n = m)"
    and "unat (n + 1) = unat n + 1"
proof -
  have m: "unat m < 2 ^ 32 - 1" using assms(2) by (rule max_not_wrap)
  have n: "unat n \<le> unat m" using assms(1) by (simp add: word_le_nat_alt)
  show *: "unat (n + 1) = unat n + 1"
    using m n by (simp add: unat_word_ariths)
  show "(n + 1 > m) = (n = m)"
    using m n * by (auto simp: word_less_nat_alt word_unat_eq_iff)
qed

lemma wrap_arith:
  "Suc (m + N) mod Suc m = N mod Suc m"
  "Suc (m + N) div Suc m = Suc (N div Suc m)"
  using mod_add_self1 [of "Suc m" N] div_add_self1 [of "Suc m" N] by simp_all

lemma unat_add_of_nat:
  fixes x :: u32
  assumes "unat x + k < 2 ^ 32"
  shows "unat (x + of_nat k) = unat x + k"
proof -
  have k: "k < 2 ^ 32" using assms by simp
  have "unat (of_nat k :: u32) = k"
    using k by (simp add: unat_of_nat take_bit_nat_eq_self)
  then show ?thesis
    using assms by (simp add: unat_word_ariths)
qed

text \<open>
  The two counters after a sequence of calls, by induction on the sequence: a call with
  an SN leaves them, a call without one steps \<open>next_pdcp_tx_sn\<close> or wraps it.
\<close>

lemma tx_counters_calls:
  assumes full: "\<not> sdu_queue_is_full env"
  shows "next_pdcp_tx_sn (st s) \<le> maximum_pdcp_sn s \<Longrightarrow> maximum_pdcp_sn s \<noteq> - 1 \<Longrightarrow>
    unat (next_pdcp_tx_sn (st (fst (write_sdu_calls env s calls)))) =
      (unat (next_pdcp_tx_sn (st s)) + calls_without_sn calls) mod (unat (maximum_pdcp_sn s) + 1)
    \<and> tx_hfn (st (fst (write_sdu_calls env s calls))) =
      tx_hfn (st s) + of_nat ((unat (next_pdcp_tx_sn (st s)) + calls_without_sn calls)
                               div (unat (maximum_pdcp_sn s) + 1))"
proof (induction calls arbitrary: s)
  case Nil
  have "unat (next_pdcp_tx_sn (st s)) < unat (maximum_pdcp_sn s) + 1"
    using Nil(1) by (simp add: word_le_nat_alt)
  then show ?case by (simp add: calls_without_sn_def)
next
  case (Cons c calls)
  obtain sdu u where c: "c = (sdu, u)" by (cases c)
  define s1 where "s1 = fst (write_sdu env s sdu u)"
  define a where "a = unat (next_pdcp_tx_sn (st s))"
  define N where "N = calls_without_sn calls"
  have max1: "maximum_pdcp_sn s1 = maximum_pdcp_sn s"
    by (simp add: s1_def write_sdu_frame)
  have step: "fst (write_sdu_calls env s (c # calls)) = fst (write_sdu_calls env s1 calls)"
    by (simp add: c s1_def split: prod.split)
  have cnt: "calls_without_sn (c # calls) = (if u = - 1 then 1 else 0) + N"
    by (simp add: c N_def calls_without_sn_def)
  show ?case
  proof (cases "u = - 1")
    case False
    then have st1: "st s1 = st s" by (simp add: s1_def write_sdu_st_upper)
    have "next_pdcp_tx_sn (st s1) \<le> maximum_pdcp_sn s1" "maximum_pdcp_sn s1 \<noteq> - 1"
      using Cons.prems by (simp_all add: st1 max1)
    from Cons.IH [OF this] show ?thesis
      using False unfolding step cnt by (simp add: st1 max1 N_def)
  next
    case True
    have st1: "st s1 =
      (if next_pdcp_tx_sn (st s) = maximum_pdcp_sn s
       then (st s)\<lparr>next_pdcp_tx_sn := 0, tx_hfn := tx_hfn (st s) + 1\<rparr>
       else (st s)\<lparr>next_pdcp_tx_sn := next_pdcp_tx_sn (st s) + 1\<rparr>)"
      using full True tx_step_arith(1) [OF Cons.prems]
      by (simp add: s1_def write_sdu_st_next)
    show ?thesis
    proof (cases "next_pdcp_tx_sn (st s) = maximum_pdcp_sn s")
      case wrap: True
      have pre: "next_pdcp_tx_sn (st s1) \<le> maximum_pdcp_sn s1" "maximum_pdcp_sn s1 \<noteq> - 1"
        using Cons.prems wrap by (simp_all add: st1 max1)
      from Cons.IH [OF pre] show ?thesis
        using True wrap unfolding step cnt
        by (simp add: st1 max1 N_def wrap_arith)
    next
      case nowrap: False
      have un: "unat (next_pdcp_tx_sn (st s) + 1) = a + 1"
        using tx_step_arith(2) [OF Cons.prems] by (simp add: a_def)
      have pre: "next_pdcp_tx_sn (st s1) \<le> maximum_pdcp_sn s1" "maximum_pdcp_sn s1 \<noteq> - 1"
        using Cons.prems nowrap tx_step_arith(1) [OF Cons.prems]
        by (simp_all add: st1 max1 not_less)
      from Cons.IH [OF pre] show ?thesis
        using True nowrap un unfolding step cnt
        by (simp add: st1 max1 N_def a_def)
    qed
  qed
qed

text \<open>
  Claim C8: let RLC never report its queue full, let \<open>next_pdcp_tx_sn\<close> start within
  its range (at most \<open>maximum_pdcp_sn\<close>, the first invariant of the data model) and let
  \<open>maximum_pdcp_sn + 1\<close> fit in 32 bits (as it does for every \<open>sn_len\<close> below 32). After
  any sequence of \<^verbatim>\<open>write_sdu\<close> calls, \<open>N\<close> of them without an SN of the caller,
  \<open>next_pdcp_tx_sn\<close> is \<open>(initial + N) mod (maximum_pdcp_sn + 1)\<close> and \<open>tx_hfn\<close> is its
  initial value plus \<open>(initial + N) div (maximum_pdcp_sn + 1)\<close>: in the 32-bit arithmetic
  of the counter always, and as numbers whenever the sum is below \<open>2 ^ 32\<close>. In
  particular, from \<open>next_pdcp_tx_sn = maximum_pdcp_sn\<close> one call without an SN sets
  \<open>next_pdcp_tx_sn\<close> to 0 and adds one to \<open>tx_hfn\<close>.
\<close>

theorem tx_counters_after_write_sdu_calls:
  assumes "\<not> sdu_queue_is_full env"
    and "next_pdcp_tx_sn (st s) \<le> maximum_pdcp_sn s"
    and "maximum_pdcp_sn s \<noteq> - 1"
  shows "unat (next_pdcp_tx_sn (st (fst (write_sdu_calls env s calls)))) =
           (unat (next_pdcp_tx_sn (st s)) + calls_without_sn calls) mod (unat (maximum_pdcp_sn s) + 1)
         \<and> tx_hfn (st (fst (write_sdu_calls env s calls))) =
             tx_hfn (st s) + of_nat ((unat (next_pdcp_tx_sn (st s)) + calls_without_sn calls)
                                      div (unat (maximum_pdcp_sn s) + 1))
         \<and> (unat (tx_hfn (st s)) + (unat (next_pdcp_tx_sn (st s)) + calls_without_sn calls)
                                      div (unat (maximum_pdcp_sn s) + 1) < 2 ^ 32 \<longrightarrow>
              unat (tx_hfn (st (fst (write_sdu_calls env s calls)))) =
                unat (tx_hfn (st s)) + (unat (next_pdcp_tx_sn (st s)) + calls_without_sn calls)
                                         div (unat (maximum_pdcp_sn s) + 1))
         \<and> (next_pdcp_tx_sn (st s) = maximum_pdcp_sn s \<longrightarrow>
              next_pdcp_tx_sn (st (fst (write_sdu env s sdu (- 1)))) = 0
              \<and> tx_hfn (st (fst (write_sdu env s sdu (- 1)))) = tx_hfn (st s) + 1)"
proof (intro conjI impI)
  assume "next_pdcp_tx_sn (st s) = maximum_pdcp_sn s"
  then have "st (fst (write_sdu env s sdu (- 1))) =
      (st s)\<lparr>next_pdcp_tx_sn := 0, tx_hfn := tx_hfn (st s) + 1\<rparr>"
    using assms tx_step_arith(1) [OF assms(2,3)] by (simp add: write_sdu_st_next)
  then show "next_pdcp_tx_sn (st (fst (write_sdu env s sdu (- 1)))) = 0"
    and "tx_hfn (st (fst (write_sdu env s sdu (- 1)))) = tx_hfn (st s) + 1"
    by simp_all
next
  assume "unat (tx_hfn (st s)) + (unat (next_pdcp_tx_sn (st s)) + calls_without_sn calls)
            div (unat (maximum_pdcp_sn s) + 1) < 2 ^ 32"
  from unat_add_of_nat [OF this]
  show "unat (tx_hfn (st (fst (write_sdu_calls env s calls)))) =
          unat (tx_hfn (st s)) + (unat (next_pdcp_tx_sn (st s)) + calls_without_sn calls)
                                   div (unat (maximum_pdcp_sn s) + 1)"
    using tx_counters_calls [OF assms, of calls] by simp
qed (use tx_counters_calls [OF assms, of calls] in simp_all)

text \<open>
  Scenario S2 of the spec: \<open>sn_len = 7\<close>, \<open>next_tx_sn = 126\<close>, three SDUs; afterwards
  \<open>next_tx_sn = 1\<close> and \<open>tx_hfn = 1\<close>. A call with the SN 9 between them changes neither.
\<close>

theorem tx_counters_after_write_sdu_calls_witness:
  "\<not> sdu_queue_is_full um_collaborators
   \<and> next_pdcp_tx_sn (st scenario_S2) \<le> maximum_pdcp_sn scenario_S2
   \<and> maximum_pdcp_sn scenario_S2 \<noteq> - 1
   \<and> unat (next_pdcp_tx_sn (st (fst (write_sdu_calls um_collaborators scenario_S2
        [(buffer_of [1], - 1), (buffer_of [2], - 1), (buffer_of [4], 9), (buffer_of [3], - 1)])))) = 1
   \<and> unat (tx_hfn (st (fst (write_sdu_calls um_collaborators scenario_S2
        [(buffer_of [1], - 1), (buffer_of [2], - 1), (buffer_of [4], 9), (buffer_of [3], - 1)])))) = 1"
  using tx_counters_after_write_sdu_calls [of um_collaborators scenario_S2
      "[(buffer_of [1], - 1), (buffer_of [2], - 1), (buffer_of [4], 9), (buffer_of [3], - 1)]"]
  by (simp add: example_defs calls_without_sn_def del: write_sdu_calls.simps)

subsection \<open>The keys of the retransmission queue\<close>

lemma map_keys_insert: "set (map_keys (map_insert k v xs)) \<subseteq> insert k (set (map_keys xs))"
  by (induction xs) (fastforce simp: map_keys_def split: if_splits)+

lemma map_keys_erase: "set (map_keys (map_erase k xs)) \<subseteq> set (map_keys xs)"
  by (induction xs) (fastforce simp: map_keys_def split: if_splits)+

lemma queue_inv_mono: "queue_inv s U \<Longrightarrow> U \<subseteq> V \<Longrightarrow> queue_inv s V"
  by (auto simp: queue_inv_def)

lemma queue_inv_write_sdu:
  assumes "queue_inv s U"
  shows "queue_inv (fst (write_sdu env s sdu u)) (if u = - 1 then U else insert u U)"
proof (cases "sdu_queue_is_full env")
  case True
  then show ?thesis using assms by (auto simp: write_sdu_full intro: queue_inv_mono)
next
  case False
  have ins: "\<And>k v. set (map_keys (map_insert k v (undelivered_sdus_queue s)))
      \<subseteq> insert k (set (map_keys (undelivered_sdus_queue s)))"
    by (rule map_keys_insert)
  show ?thesis
    using assms False ins
    apply (simp add: write_sdu_def Let_def store_sdu_def queue_inv_def
        split: pdcp_discard_timer_t.split)
    apply (intro conjI impI allI)
    apply (auto simp: not_less)
    done
qed

lemma queue_inv_erase:
  assumes "queue_inv s U"
  shows "queue_inv (s\<lparr>undelivered_sdus_queue := map_erase k (undelivered_sdus_queue s),
                       discard_timers_map := map_erase k' (discard_timers_map s)\<rparr>) U"
  using assms map_keys_erase [of k "undelivered_sdus_queue s"]
  by (auto simp: queue_inv_def)

lemma queue_inv_erase_timer:
  assumes "queue_inv s U"
  shows "queue_inv (s\<lparr>discard_timers_map := map_erase k' (discard_timers_map s)\<rparr>) U"
  using assms by (auto simp: queue_inv_def)

lemma queue_inv_notify_delivery:
  "queue_inv s U \<Longrightarrow> queue_inv (notify_delivery s pdcp_sns) U"
proof (induction pdcp_sns arbitrary: s)
  case Nil
  then show ?case by simp
next
  case (Cons sn pdcp_sns)
  show ?case
    using Cons.IH [OF queue_inv_erase [OF Cons.prems, of sn sn]] Cons.prems by simp
qed

lemma queue_inv_discard_callback:
  "queue_inv s U \<Longrightarrow> queue_inv (fst (discard_callback s sn)) U"
  using queue_inv_erase [of s U sn sn] queue_inv_erase_timer [of s U sn]
  by (simp add: discard_callback_def Let_def)

lemma queue_inv_step:
  assumes "queue_inv s U"
  shows "queue_inv (step env s e) (U \<union> set (upper_sns [e]))"
proof (cases e)
  case (Write_sdu full sdu u)
  show ?thesis
    using queue_inv_write_sdu [OF assms, of "env\<lparr>sdu_queue_is_full := full\<rparr>" sdu u]
    by (auto simp add: Write_sdu split: if_splits)
next
  case (Discard_timer_expired k)
  show ?thesis
    using assms queue_inv_discard_callback [OF assms]
    by (simp add: Discard_timer_expired split: option.split)
next
  case (Notify_delivery sns)
  show ?thesis using queue_inv_notify_delivery [OF assms] by (simp add: Notify_delivery)
qed

lemma queue_inv_run:
  "queue_inv s U \<Longrightarrow> queue_inv (run env s evs) (U \<union> set (upper_sns evs))"
proof (induction evs arbitrary: s U)
  case Nil
  then show ?case by (simp add: run_def)
next
  case (Cons e evs)
  have "queue_inv (run env (step env s e) evs) ((U \<union> set (upper_sns [e])) \<union> set (upper_sns evs))"
    by (rule Cons.IH [OF queue_inv_step [OF Cons.prems]])
  moreover have "(U \<union> set (upper_sns [e])) \<union> set (upper_sns evs) = U \<union> set (upper_sns (e # evs))"
    by (cases e) auto
  ultimately show ?case by (simp add: run_def)
qed

lemma notify_delivery_frame:
  "maximum_pdcp_sn (notify_delivery s sns) = maximum_pdcp_sn s \<and> cfg (notify_delivery s sns) = cfg s"
  by (induction sns arbitrary: s) auto

lemma step_frame:
  "maximum_pdcp_sn (step env s e) = maximum_pdcp_sn s \<and> cfg (step env s e) = cfg s"
  by (cases e)
     (auto simp: write_sdu_frame notify_delivery_frame discard_callback_def Let_def
           split: option.split)

lemma run_frame:
  "maximum_pdcp_sn (run env s evs) = maximum_pdcp_sn s \<and> cfg (run env s evs) = cfg s"
  by (induction evs arbitrary: s) (auto simp: run_def step_frame)

lemma run_append: "run env s (xs @ ys) = run env (run env s xs) ys"
  by (simp add: run_def)

text \<open>
  4096 rounds of sending and delivery on the DRB with \<open>sn_len = 12\<close>: each round leaves
  the two maps empty, and the last one wraps \<open>next_pdcp_tx_sn\<close> and sets \<open>tx_hfn\<close> to 1.
\<close>

lemma am_drb_state_0: "new_pdcp_entity_lte (drb_config 12 2 (ms 10) False) = am_drb_state 0 0"
  by (simp add: example_defs)

lemma deliver_round:
  assumes "sn \<le> 4095"
  shows "run (example_collaborators False) (am_drb_state sn 0)
           [Write_sdu False (buffer_of [0xA]) (- 1), Notify_delivery [sn]]
         = (if sn = 4095 then am_drb_state 0 1 else am_drb_state (sn + 1) 0)"
proof -
  have "(4095 < sn + 1) = (sn = 4095)"
    using tx_step_arith(1) [of sn 4095] assms by simp
  then show ?thesis
    by (simp add: run_def write_sdu_def Let_def store_sdu_def COUNT_def is_drb_def example_defs)
qed

lemma deliver_each_Suc:
  "deliver_each (Suc n) =
     deliver_each n @ [Write_sdu False (buffer_of [0xA]) (- 1), Notify_delivery [of_nat n]]"
  by (simp add: deliver_each_def)

lemma deliver_each_below:
  "n \<le> 4095 \<Longrightarrow>
   run (example_collaborators False) (am_drb_state 0 0) (deliver_each n) = am_drb_state (of_nat n) 0"
proof (induction n)
  case 0
  then show ?case by (simp add: deliver_each_def run_def)
next
  case (Suc n)
  have le: "(of_nat n :: u32) \<le> 4095" and ne: "(of_nat n :: u32) \<noteq> 4095"
    using Suc.prems
    by (simp_all add: word_le_nat_alt word_unat_eq_iff unat_of_nat take_bit_nat_eq_self)
  show ?case
    using Suc.IH Suc.prems deliver_round [OF le] ne
    by (simp add: deliver_each_Suc run_append add.commute)
qed

lemma deliver_each_wrap:
  "run (example_collaborators False) (am_drb_state 0 0) (deliver_each 4096) = am_drb_state 0 1"
proof -
  have eq: "deliver_each 4096 =
      deliver_each 4095 @ [Write_sdu False (buffer_of [0xA]) (- 1), Notify_delivery [4095]]"
    using deliver_each_Suc [of 4095] by simp
  show ?thesis
    unfolding eq run_append using deliver_each_below [of 4095] deliver_round [of 4095]
    by simp
qed

text \<open>
  Claim C2, as the spec states it: every key of the queue is the COUNT
  \<open>(tx_hfn << sn_len) | sn\<close> and, with a finite discard timer, has an entry in the map of
  timers. On a DRB/AM entity with \<open>sn_len = 12\<close> and a discard timer of 10 ms, 4096
  rounds of \<^verbatim>\<open>write_sdu\<close> and delivery notification bring \<open>tx_hfn\<close> to 1; the next
  \<^verbatim>\<open>write_sdu\<close> sends SN 0 with the COUNT 4096, stores the SDU under the key 0, the
  bare SN, and arms its timer under the key 4096: the key 0 is not the COUNT and has no
  timer.
\<close>

theorem queue_key_is_sn_after_wrap:
  "tx_hfn (st (run (example_collaborators False)
                 (new_pdcp_entity_lte (drb_config 12 2 (ms 10) False)) (deliver_each 4096))) = 1
   \<and> COUNT (new_pdcp_entity_lte (drb_config 12 2 (ms 10) False)) 1 0 = 4096
   \<and> map_keys (undelivered_sdus_queue
        (run (example_collaborators False) (new_pdcp_entity_lte (drb_config 12 2 (ms 10) False))
           (deliver_each 4096 @ [Write_sdu False (buffer_of [0xA]) (- 1)]))) = [0]
   \<and> map_keys (discard_timers_map
        (run (example_collaborators False) (new_pdcp_entity_lte (drb_config 12 2 (ms 10) False))
           (deliver_each 4096 @ [Write_sdu False (buffer_of [0xA]) (- 1)]))) = [4096]"
  unfolding am_drb_state_0 run_append deliver_each_wrap
  by (simp add: run_def write_sdu_def Let_def store_sdu_def COUNT_def is_drb_def
      example_defs map_keys_def)

lemma set_map_insert: "set (map_insert k v xs) \<subseteq> insert (k, v) (set xs)"
  by (induction xs) (auto split: if_splits)

lemma set_map_erase: "set (map_erase k xs) \<subseteq> set xs"
  by (induction xs) (auto split: if_splits)

lemma map_find_keys: "(map_find k xs \<noteq> None) = (k \<in> set (map_keys xs))"
  by (induction xs) (auto simp: map_keys_def)

lemma map_keys_insert_eq: "set (map_keys (map_insert k v xs)) = insert k (set (map_keys xs))"
  by (induction xs) (force simp: map_keys_def split: if_splits)+

text \<open>
  One \<^verbatim>\<open>write_sdu\<close> call that RLC does not refuse: the PDU it hands to RLC carries the
  SN \<open>used_sn\<close>, and the queue is the one that \<^verbatim>\<open>store_sdu\<close> leaves for that SN.
\<close>

lemma write_sdu_sent:
  "\<not> sdu_queue_is_full env \<Longrightarrow>
   sent_with sdu (snd (write_sdu env s sdu u)) =
     [(if u = - 1 then next_pdcp_tx_sn (st s) else u,
       \<lparr>msg = pdu_bytes sdu, N_bytes = N_bytes sdu, md_pdcp_sn = 0\<rparr>)]"
  by (simp add: write_sdu_def Let_def)

lemma write_sdu_queue:
  "\<not> sdu_queue_is_full env \<Longrightarrow>
   undelivered_sdus_queue (fst (write_sdu env s sdu u)) =
     (if is_drb s \<and> \<not> rb_is_um env
      then undelivered_sdus_queue
             (snd (store_sdu s (if u = - 1 then next_pdcp_tx_sn (st s) else u) sdu))
      else undelivered_sdus_queue s)"
  by (cases "discard_timer (cfg s)"; cases "is_drb s"; cases "rb_is_um env"; cases "u = - 1";
      cases "map_find (if u = - 1 then next_pdcp_tx_sn (st s) else u) (undelivered_sdus_queue s)")
     (simp_all add: write_sdu_def Let_def store_sdu_def)

lemma write_sdu_entries:
  "set (undelivered_sdus_queue (fst (write_sdu env s sdu u)))
     \<subseteq> set (undelivered_sdus_queue s) \<union> set (sent_with sdu (snd (write_sdu env s sdu u)))"
proof (cases "sdu_queue_is_full env")
  case True
  then show ?thesis by (simp add: write_sdu_full)
next
  case False
  show ?thesis
    using set_map_insert [of "if u = - 1 then next_pdcp_tx_sn (st s) else u"
        "\<lparr>msg = pdu_bytes sdu, N_bytes = N_bytes sdu, md_pdcp_sn = 0\<rparr>" "undelivered_sdus_queue s"]
    by (auto simp add: write_sdu_queue [OF False] write_sdu_sent [OF False] store_sdu_def)
qed

lemma write_sdu_keys:
  assumes "is_drb s" "\<not> rb_is_um env" "\<not> sdu_queue_is_full env"
  shows "set (map_keys (undelivered_sdus_queue (fst (write_sdu env s sdu u))))
         = insert (if u = - 1 then next_pdcp_tx_sn (st s) else u)
             (set (map_keys (undelivered_sdus_queue s)))"
  using assms
    map_find_keys [of "if u = - 1 then next_pdcp_tx_sn (st s) else u" "undelivered_sdus_queue s"]
  by (auto simp add: write_sdu_queue store_sdu_def map_keys_insert_eq)

lemma notify_delivery_entries:
  "set (undelivered_sdus_queue (notify_delivery s sns)) \<subseteq> set (undelivered_sdus_queue s)"
proof (induction sns arbitrary: s)
  case Nil
  show ?case by simp
next
  case (Cons sn sns)
  show ?case
    using Cons.IH [of "s\<lparr>undelivered_sdus_queue := map_erase sn (undelivered_sdus_queue s),
                          discard_timers_map := map_erase sn (discard_timers_map s)\<rparr>"]
      set_map_erase [of sn "undelivered_sdus_queue s"]
    by auto
qed

lemma discard_callback_entries:
  "set (undelivered_sdus_queue (fst (discard_callback s sn))) \<subseteq> set (undelivered_sdus_queue s)"
  using set_map_erase [of sn "undelivered_sdus_queue s"]
  by (auto simp: discard_callback_def Let_def)

text \<open>
  Every entry of the queue after a sequence of events was there before it or was stored
  by a \<^verbatim>\<open>write_sdu\<close> call of the sequence, under the SN that call sent its SDU with.
\<close>

lemma run_entries:
  "set (undelivered_sdus_queue (run env s evs))
     \<subseteq> set (undelivered_sdus_queue s) \<union> set (sent_sdus env s evs)"
proof (induction evs arbitrary: s)
  case Nil
  show ?case by (simp add: run_def)
next
  case (Cons e evs)
  have run: "run env s (e # evs) = run env (step env s e) evs" by (simp add: run_def)
  have step: "set (undelivered_sdus_queue (step env s e))
      \<subseteq> set (undelivered_sdus_queue s) \<union> set (sent_sdus env s [e])"
  proof (cases e)
    case (Write_sdu full sdu u)
    show ?thesis
      using write_sdu_entries [of "env\<lparr>sdu_queue_is_full := full\<rparr>" s sdu u]
      by (simp add: Write_sdu)
  next
    case (Discard_timer_expired k)
    show ?thesis
      using discard_callback_entries by (simp add: Discard_timer_expired split: option.split)
  next
    case (Notify_delivery sns)
    show ?thesis using notify_delivery_entries by (simp add: Notify_delivery)
  qed
  have sent: "set (sent_sdus env s (e # evs)) =
      set (sent_sdus env s [e]) \<union> set (sent_sdus env (step env s e) evs)"
    by (cases e) simp_all
  show ?case
    unfolding run sent using Cons.IH [of "step env s e"] step by blast
qed

text \<open>
  Claim C2, amended: in every state that an entity reaches by \<^verbatim>\<open>write_sdu\<close> calls,
  expiries of discard timers and delivery notifications, every key of the undelivered
  queue is a bare SN, the one its SDU was sent with, and not the COUNT.
  \<^item> Every entry of the queue after a sequence of events, from any state, was in the
    queue before or is the copy of the SDU of a \<^verbatim>\<open>write_sdu\<close> call of the sequence, under
    the SN that the PDU of that call carries to RLC in \<^verbatim>\<open>md.pdcp_sn\<close>; from
    construction, where the queue is empty, every entry is such a one.
  \<^item> On a DRB over RLC AM, a \<^verbatim>\<open>write_sdu\<close> call that RLC does not refuse sends its PDU
    with the SN \<open>next_pdcp_tx_sn\<close>, or with the SN of the caller, and leaves in the queue
    exactly the keys that were there and that SN.
  \<^item> From construction, every key is at most \<open>maximum_pdcp_sn\<close> or an SN that a caller
    gave, and an entity whose discard timer is infinite holds no entry in the map of
    discard timers.
\<close>

theorem queue_keys_are_sns:
  "(\<forall>e \<in> set (undelivered_sdus_queue (run env s evs)).
      e \<in> set (undelivered_sdus_queue s) \<or> e \<in> set (sent_sdus env s evs))
   \<and> (\<forall>e \<in> set (undelivered_sdus_queue (run env (new_pdcp_entity_lte config) evs)).
        e \<in> set (sent_sdus env (new_pdcp_entity_lte config) evs))
   \<and> (is_drb s \<and> \<not> rb_is_um env \<and> \<not> sdu_queue_is_full env \<longrightarrow>
        map fst (sent_with sdu (snd (write_sdu env s sdu u)))
          = [if u = - 1 then next_pdcp_tx_sn (st s) else u]
        \<and> set (map_keys (undelivered_sdus_queue (fst (write_sdu env s sdu u))))
          = set (map_keys (undelivered_sdus_queue s))
              \<union> set (map fst (sent_with sdu (snd (write_sdu env s sdu u)))))
   \<and> (\<forall>k \<in> set (map_keys (undelivered_sdus_queue (run env (new_pdcp_entity_lte config) evs))).
        k \<le> maximum_pdcp_sn (new_pdcp_entity_lte config) \<or> k \<in> set (upper_sns evs))
   \<and> (discard_timer config = infinity \<longrightarrow>
        discard_timers_map (run env (new_pdcp_entity_lte config) evs) = [])"
proof (intro conjI impI ballI)
  fix e assume "e \<in> set (undelivered_sdus_queue (run env s evs))"
  then show "e \<in> set (undelivered_sdus_queue s) \<or> e \<in> set (sent_sdus env s evs)"
    using run_entries [of env s evs] by blast
next
  fix e assume "e \<in> set (undelivered_sdus_queue (run env (new_pdcp_entity_lte config) evs))"
  moreover have "undelivered_sdus_queue (new_pdcp_entity_lte config) = []"
    by (simp add: new_pdcp_entity_lte_def Let_def)
  ultimately show "e \<in> set (sent_sdus env (new_pdcp_entity_lte config) evs)"
    using run_entries [of env "new_pdcp_entity_lte config" evs] by auto
next
  assume h: "is_drb s \<and> \<not> rb_is_um env \<and> \<not> sdu_queue_is_full env"
  then show sn: "map fst (sent_with sdu (snd (write_sdu env s sdu u)))
      = [if u = - 1 then next_pdcp_tx_sn (st s) else u]"
    by (simp add: write_sdu_sent)
  show "set (map_keys (undelivered_sdus_queue (fst (write_sdu env s sdu u))))
      = set (map_keys (undelivered_sdus_queue s))
          \<union> set (map fst (sent_with sdu (snd (write_sdu env s sdu u))))"
    unfolding sn using h write_sdu_keys [of s env sdu u] by auto
next
  have new: "queue_inv (new_pdcp_entity_lte config) {}"
    by (simp add: queue_inv_def new_pdcp_entity_lte_def Let_def map_keys_def)
  have inv: "queue_inv (run env (new_pdcp_entity_lte config) evs) (set (upper_sns evs))"
    using queue_inv_run [OF new, of env evs] by simp
  have frame: "maximum_pdcp_sn (run env (new_pdcp_entity_lte config) evs)
        = maximum_pdcp_sn (new_pdcp_entity_lte config)"
      "cfg (run env (new_pdcp_entity_lte config) evs) = config"
    using run_frame [of env "new_pdcp_entity_lte config" evs]
    by (simp_all add: new_pdcp_entity_lte_def Let_def)
  {
    fix k assume "k \<in> set (map_keys (undelivered_sdus_queue (run env (new_pdcp_entity_lte config) evs)))"
    then show "k \<le> maximum_pdcp_sn (new_pdcp_entity_lte config) \<or> k \<in> set (upper_sns evs)"
      using inv frame by (auto simp: queue_inv_def)
  }
  {
    assume "discard_timer config = infinity"
    then show "discard_timers_map (run env (new_pdcp_entity_lte config) evs) = []"
      using inv frame by (simp add: queue_inv_def)
  }
qed

text \<open>
  The theorem at the state that 4096 rounds of sending and delivery reach, where
  \<open>tx_hfn = 1\<close> and the COUNT of SN 0 is 4096: the next \<^verbatim>\<open>write_sdu\<close> sends its PDU with
  SN 0 and the queue holds the copy of its SDU under the key 0. And at \<open>five_events\<close>
  from construction, where the one entry left is under the SN 5000 of the caller.
\<close>

theorem queue_keys_are_sns_witness:
  "run (example_collaborators False) (new_pdcp_entity_lte (drb_config 12 2 (ms 10) False))
       (deliver_each 4096) = am_drb_state 0 1
   \<and> tx_hfn (st (am_drb_state 0 1)) = 1
   \<and> COUNT (am_drb_state 0 1) 1 0 = 4096
   \<and> is_drb (am_drb_state 0 1)
   \<and> \<not> rb_is_um (example_collaborators False)
   \<and> \<not> sdu_queue_is_full (example_collaborators False)
   \<and> sent_sdus (example_collaborators False) (am_drb_state 0 1)
        [Write_sdu False (buffer_of [0xA]) (- 1)] = [(0, buffer_of [0xA])]
   \<and> undelivered_sdus_queue
        (run (example_collaborators False) (am_drb_state 0 1)
           [Write_sdu False (buffer_of [0xA]) (- 1)]) = [(0, buffer_of [0xA])]
   \<and> list_all (\<lambda>e. e \<in> set (undelivered_sdus_queue (am_drb_state 0 1))
                  \<or> e \<in> set (sent_sdus (example_collaborators False) (am_drb_state 0 1)
                               [Write_sdu False (buffer_of [0xA]) (- 1)]))
        (undelivered_sdus_queue
           (run (example_collaborators False) (am_drb_state 0 1)
              [Write_sdu False (buffer_of [0xA]) (- 1)]))
   \<and> set (map_keys (undelivered_sdus_queue
        (fst (write_sdu (example_collaborators False) (am_drb_state 0 1) (buffer_of [0xA]) (- 1)))))
       = {0}
   \<and> list_all (\<lambda>k. k \<le> maximum_pdcp_sn (new_pdcp_entity_lte (drb_config 12 2 infinity False))
                   \<or> k \<in> set (upper_sns five_events))
        (map_keys (undelivered_sdus_queue
           (run (example_collaborators False) (new_pdcp_entity_lte (drb_config 12 2 infinity False))
              five_events)))
   \<and> discard_timer (drb_config 12 2 infinity False) = infinity
   \<and> discard_timers_map
        (run (example_collaborators False) (new_pdcp_entity_lte (drb_config 12 2 infinity False))
           five_events) = []
   \<and> undelivered_sdus_queue
        (run (example_collaborators False) (new_pdcp_entity_lte (drb_config 12 2 infinity False))
           five_events) = [(5000, buffer_of [2])]
   \<and> sent_sdus (example_collaborators False) (new_pdcp_entity_lte (drb_config 12 2 infinity False))
        five_events = [(0, buffer_of [1]), (5000, buffer_of [2])]"
  using queue_keys_are_sns [of "example_collaborators False" "am_drb_state 0 1"
      "[Write_sdu False (buffer_of [0xA]) (- 1)]" "drb_config 12 2 infinity False"
      "buffer_of [0xA]" "- 1"]
    queue_keys_are_sns [of "example_collaborators False" "am_drb_state 0 1"
      five_events "drb_config 12 2 infinity False" "buffer_of [0xA]" "- 1"]
    deliver_each_wrap
  by (simp add: am_drb_state_0 list_all_iff run_def five_events_def write_sdu_def Let_def
      store_sdu_def COUNT_def is_drb_def example_defs map_keys_def discard_callback_def
      pdu_bytes_def)

end
